theory Spec2Isabelle
  imports Main "HOL-Library.Signed_Division" "HOL-Library.Sublist"
begin

section \<open>JavaScript primitives used by the SDK\<close>

text \<open>
  The SDK is TypeScript. Its amounts are \<^verbatim>\<open>bigint\<close> values: unbounded integers whose
  division truncates toward zero, whose remainder takes the sign of the dividend, and
  whose division, remainder and exponentiation throw a \<^verbatim>\<open>RangeError\<close> on a zero divisor
  or a negative exponent. Every throw of the source is a value \<open>Inl e\<close> of the model.
\<close>

datatype js_error = RangeError | TypeError | SyntaxError

definition bigint_div :: "int \<Rightarrow> int \<Rightarrow> js_error + int" where
  "bigint_div a b = (if b = 0 then Inl RangeError else Inr (a sdiv b))"

definition bigint_mod :: "int \<Rightarrow> int \<Rightarrow> js_error + int" where
  "bigint_mod a b = (if b = 0 then Inl RangeError else Inr (a smod b))"

definition bigint_pow :: "int \<Rightarrow> int \<Rightarrow> js_error + int" where
  "bigint_pow b e = (if e < 0 then Inl RangeError else Inr (b ^ nat e))"

text \<open>
  Strings are lists of characters. \<^verbatim>\<open>BigInt.prototype.toString()\<close> writes the decimal
  digits, most significant first, after a minus sign when the value is negative.
\<close>

definition digit_char :: "nat \<Rightarrow> char" where
  "digit_char d = char_of (48 + d)"

fun nat_digits :: "nat \<Rightarrow> string" where
  "nat_digits n =
     (if n < 10 then [digit_char n] else nat_digits (n div 10) @ [digit_char (n mod 10)])"

declare nat_digits.simps [simp del]

definition bigint_toString :: "int \<Rightarrow> string" where
  "bigint_toString k =
     (if k < 0 then CHR ''-'' # nat_digits (nat (- k)) else nat_digits (nat k))"

text \<open>\<^verbatim>\<open>s.padStart(n, c)\<close> for a one-character pad: pads on the left up to length \<open>n\<close>.\<close>

definition padStart :: "nat \<Rightarrow> char \<Rightarrow> string \<Rightarrow> string" where
  "padStart n c s = replicate (n - length s) c @ s"

text \<open>\<^verbatim>\<open>s.replace(/0+$/, '')\<close>: removes the zeros at the end of the string.\<close>

definition trimTrailingZeros :: "string \<Rightarrow> string" where
  "trimTrailingZeros s = rev (dropWhile (\<lambda>c. c = CHR ''0'') (rev s))"

text \<open>\<^verbatim>\<open>s.includes(t)\<close>: \<open>t\<close> occurs in \<open>s\<close> as a contiguous run.\<close>

fun str_includes :: "string \<Rightarrow> string \<Rightarrow> bool" where
  "str_includes [] t = (t = [])"
| "str_includes (c # s) t = (prefix t (c # s) \<or> str_includes s t)"

text \<open>Sequencing of computations that may throw: the first error ends the computation.\<close>

definition and_then :: "'err + 'v \<Rightarrow> ('v \<Rightarrow> 'err + 'r) \<Rightarrow> 'err + 'r" where
  "and_then m f = (case m of Inl e \<Rightarrow> Inl e | Inr x \<Rightarrow> f x)"

section \<open>Amount formatting (src/utils/helpers.ts)\<close>

text \<open>
  \<^verbatim>\<open>formatTokenDisplay(amount, decimals = 18)\<close>. The parameter \<^verbatim>\<open>decimals\<close> is a
  JavaScript number; the model takes the integer-valued ones, for which
  \<^verbatim>\<open>BigInt(decimals)\<close> is the same integer, and keeps the \<^verbatim>\<open>RangeError\<close> of
  \<^verbatim>\<open>10n ** BigInt(decimals)\<close> on a negative exponent.
\<close>

definition formatTokenDisplay :: "int \<Rightarrow> int \<Rightarrow> js_error + string" where
  "formatTokenDisplay amount decimals =
     and_then (bigint_pow 10 decimals) (\<lambda>divisor.
     and_then (bigint_div amount divisor) (\<lambda>whole.
     and_then (bigint_mod amount divisor) (\<lambda>fraction.
       if fraction = 0 then Inr (bigint_toString whole)
       else
         let fractionStr = padStart (nat decimals) (CHR ''0'') (bigint_toString fraction);
             trimmedFraction = trimTrailingZeros fractionStr
         in Inr (if trimmedFraction \<noteq> []
                 then bigint_toString whole @ ''.'' @ trimmedFraction
                 else bigint_toString whole))))"

definition formatUSDCDisplay :: "int \<Rightarrow> js_error + string" where
  "formatUSDCDisplay amount = formatTokenDisplay amount 6"

text \<open>
  \<^verbatim>\<open>formatPercentage(numerator, denominator, decimals = 2)\<close>. The body never reads
  \<^verbatim>\<open>decimals\<close>: the scale \<^verbatim>\<open>10000n\<close> and the pad width \<^verbatim>\<open>2\<close> are literals.
\<close>

definition formatPercentage :: "int \<Rightarrow> int \<Rightarrow> int \<Rightarrow> js_error + string" where
  "formatPercentage numerator denominator decimals =
     (if denominator = 0 then Inr ''0%''
      else
        and_then (bigint_div (numerator * 10000) denominator) (\<lambda>percentage.
        and_then (bigint_div percentage 100) (\<lambda>whole.
        and_then (bigint_mod percentage 100) (\<lambda>fraction.
          if fraction = 0 then Inr (bigint_toString whole @ ''%'')
          else
            let fractionStr = padStart 2 (CHR ''0'') (bigint_toString fraction)
            in Inr (bigint_toString whole @ ''.'' @ fractionStr @ ''%'')))))"

text \<open>
  The percentage formatter as the specification words it, for comparison with the
  source's: scale by \<open>10 ^ (precisionDigits + 2)\<close>, divide, split off
  \<open>precisionDigits\<close> fractional digits as the amount codec does, trim the trailing zeros
  of the fraction, append the percent sign.
\<close>

definition formatPercentage_spec :: "int \<Rightarrow> int \<Rightarrow> nat \<Rightarrow> string" where
  "formatPercentage_spec numerator denominator precisionDigits =
     (if denominator = 0 then ''0%''
      else
        let scaled = (numerator * 10 ^ (precisionDigits + 2)) div denominator;
            whole = scaled div 10 ^ precisionDigits;
            fraction = scaled mod 10 ^ precisionDigits;
            trimmed = trimTrailingZeros
                        (padStart precisionDigits (CHR ''0'') (bigint_toString fraction))
        in (if trimmed = [] then bigint_toString whole
            else bigint_toString whole @ ''.'' @ trimmed) @ ''%'')"

section \<open>Parsing display strings\<close>

datatype codec_error = InvalidAmountFormat

definition is_digit :: "char \<Rightarrow> bool" where
  "is_digit c = (48 \<le> (of_char c :: nat) \<and> (of_char c :: nat) \<le> 57)"

definition digit_val :: "char \<Rightarrow> nat" where
  "digit_val c = of_char c - 48"

definition digits_value :: "string \<Rightarrow> nat" where
  "digits_value s = foldl (\<lambda>acc c. 10 * acc + digit_val c) 0 s"

text \<open>
  Modelled from the spec: the parser behind \<^verbatim>\<open>parseTokenAmount\<close> and
  \<^verbatim>\<open>parseUSDCAmount\<close> is \<^verbatim>\<open>parseEther\<close> / \<^verbatim>\<open>parseUnits\<close> of the viem package, whose
  code is not in the repository. The specification's \<open>parseFromDisplayString\<close>: the text
  is a non-negative decimal numeral, digits with an optional point and fractional digits;
  the result is the numeral times \<open>10 ^ exponent\<close>, rounded to the nearest integer (a
  half rounds up), computed on integers only; any other text fails with
  \<open>InvalidAmountFormat\<close>.
\<close>

definition parseFromDisplayString :: "string \<Rightarrow> nat \<Rightarrow> codec_error + int" where
  "parseFromDisplayString text exponent =
     (let wholePart = takeWhile (\<lambda>c. c \<noteq> CHR ''.'') text;
          rest = dropWhile (\<lambda>c. c \<noteq> CHR ''.'') text;
          fractionPart = drop 1 rest
      in if wholePart \<noteq> [] \<and> list_all is_digit wholePart
            \<and> list_all is_digit fractionPart \<and> (rest = [] \<or> fractionPart \<noteq> [])
         then
           let k = length fractionPart;
               numeral = digits_value wholePart * 10 ^ k + digits_value fractionPart
           in Inr (int ((2 * numeral * 10 ^ exponent + 10 ^ k) div (2 * 10 ^ k)))
         else Inl InvalidAmountFormat)"

text \<open>
  The client's parsers (ENR1MClient): \<^verbatim>\<open>parseTokenAmount\<close> returns
  \<^verbatim>\<open>parseEther(amount)\<close>, the parse at exponent 18, and \<^verbatim>\<open>parseUSDCAmount\<close> returns
  \<^verbatim>\<open>parseUnits(amount, 6)\<close>.
\<close>

definition parseTokenAmount :: "string \<Rightarrow> codec_error + int" where
  "parseTokenAmount amount = parseFromDisplayString amount 18"

definition parseUSDCAmount :: "string \<Rightarrow> codec_error + int" where
  "parseUSDCAmount amount = parseFromDisplayString amount 6"

section \<open>Calculation and validation helpers (src/utils/helpers.ts)\<close>

text \<open>
  \<^verbatim>\<open>calculateUserShare(userBalance, totalDistribution, eligibleSupply)\<close>: the guard on a
  zero supply, then one multiplication followed by one truncating division.
\<close>

definition calculateUserShare :: "int \<Rightarrow> int \<Rightarrow> int \<Rightarrow> js_error + int" where
  "calculateUserShare userBalance totalDistribution eligibleSupply =
     (if eligibleSupply = 0 then Inr 0
      else bigint_div (totalDistribution * userBalance) eligibleSupply)"

definition validateSnapshotId :: "int \<Rightarrow> bool" where
  "validateSnapshotId snapshotId = (snapshotId > 0)"

definition validateAmount :: "int \<Rightarrow> bool" where
  "validateAmount amount = (amount > 0)"

text \<open>
  \<^verbatim>\<open>calculateAPY(monthlyDistribution, userBalance, eligibleSupply, tokenPriceUSD = 1.0)\<close>
  returns a JavaScript number. After its first guard it computes on IEEE doubles; the
  model leaves the number type and its operations open, as a parameter: the literals,
  \<^verbatim>\<open>Number(s)\<close>, the product, the quotient and the test \<^verbatim>\<open>x === 0\<close>.
\<close>

record 'n number_ops =
  num_literal :: "int \<Rightarrow> 'n"
  num_parse :: "string \<Rightarrow> 'n"
  num_times :: "'n \<Rightarrow> 'n \<Rightarrow> 'n"
  num_divide :: "'n \<Rightarrow> 'n \<Rightarrow> 'n"
  num_is_zero :: "'n \<Rightarrow> bool"

definition calculateAPY ::
  "'n number_ops \<Rightarrow> int \<Rightarrow> int \<Rightarrow> int \<Rightarrow> 'n \<Rightarrow> js_error + 'n" where
  "calculateAPY ops monthlyDistribution userBalance eligibleSupply tokenPriceUSD =
     (if eligibleSupply = 0 \<or> userBalance = 0 then Inr (num_literal ops 0)
      else
        and_then (calculateUserShare userBalance monthlyDistribution eligibleSupply)
          (\<lambda>userShare.
        and_then (formatUSDCDisplay userShare) (\<lambda>userShareText.
        and_then (formatTokenDisplay userBalance 18) (\<lambda>userBalanceText.
          let userShareUSD = num_parse ops userShareText;
              userBalanceUSD = num_times ops (num_parse ops userBalanceText) tokenPriceUSD
          in if num_is_zero ops userBalanceUSD then Inr (num_literal ops 0)
             else
               let monthlyReturn = num_divide ops userShareUSD userBalanceUSD;
                   annualReturn = num_times ops monthlyReturn (num_literal ops 12)
               in Inr (num_times ops annualReturn (num_literal ops 100))))))"

section \<open>Error classification (src/utils/helpers.ts)\<close>

text \<open>
  \<^verbatim>\<open>parseContractError(error: unknown)\<close> receives any JavaScript value. The values of
  the model: the primitives, arrays, and plain objects as lists of properties (the
  first entry of a name is the property's value). A number stands for an integer-valued
  one. Such data holds no function, so a method call on it finds a method only where
  the prototype of the value has one.
\<close>

datatype js_value =
    JUndefined
  | JNull
  | JBoolean bool
  | JNumber int
  | JString string
  | JArray "js_value list"
  | JObject "(string \<times> js_value) list"

fun js_typeof :: "js_value \<Rightarrow> string" where
  "js_typeof JUndefined = ''undefined''"
| "js_typeof JNull = ''object''"
| "js_typeof (JBoolean b) = ''boolean''"
| "js_typeof (JNumber n) = ''number''"
| "js_typeof (JString s) = ''string''"
| "js_typeof (JArray xs) = ''object''"
| "js_typeof (JObject props) = ''object''"

fun js_truthy :: "js_value \<Rightarrow> bool" where
  "js_truthy JUndefined = False"
| "js_truthy JNull = False"
| "js_truthy (JBoolean b) = b"
| "js_truthy (JNumber n) = (n \<noteq> 0)"
| "js_truthy (JString s) = (s \<noteq> [])"
| "js_truthy (JArray xs) = True"
| "js_truthy (JObject props) = True"

text \<open>
  \<^verbatim>\<open>'message' in error\<close>, evaluated on objects only: a plain object has the property
  when it lists it; an array has its indices, \<^verbatim>\<open>length\<close> and the methods of its
  prototype, none of them named \<^verbatim>\<open>message\<close>.
\<close>

fun js_has_message :: "js_value \<Rightarrow> bool" where
  "js_has_message (JObject props) = (map_of props ''message'' \<noteq> None)"
| "js_has_message v = False"

fun js_get_message :: "js_value \<Rightarrow> js_value" where
  "js_get_message (JObject props) =
     (case map_of props ''message'' of None \<Rightarrow> JUndefined | Some v \<Rightarrow> v)"
| "js_get_message v = JUndefined"

text \<open>
  \<^verbatim>\<open>message.includes(t)\<close>: strings search for a substring and arrays for an element;
  \<^verbatim>\<open>undefined\<close> and \<^verbatim>\<open>null\<close> have no properties, and booleans, numbers and plain
  data objects have no callable \<^verbatim>\<open>includes\<close>: the call throws a \<^verbatim>\<open>TypeError\<close>.
\<close>

fun js_includes :: "js_value \<Rightarrow> string \<Rightarrow> js_error + bool" where
  "js_includes (JString s) t = Inr (str_includes s t)"
| "js_includes (JArray xs) t = Inr (List.member xs (JString t))"
| "js_includes v t = Inl TypeError"

definition parseContractError :: "js_value \<Rightarrow> js_error + js_value" where
  "parseContractError error =
     (if js_typeof error = ''string'' then Inr error
      else if js_truthy error \<and> js_typeof error = ''object'' \<and> js_has_message error then
        let message = js_get_message error in
        and_then (js_includes message ''Pausable: paused'') (\<lambda>paused.
        if paused then Inr (JString ''Contract is currently paused'') else
        and_then (js_includes message ''AccessControl:'') (\<lambda>access.
        if access then Inr (JString ''Insufficient permissions for this operation'') else
        and_then (js_includes message ''Already claimed'') (\<lambda>claimed.
        if claimed then Inr (JString ''You have already claimed for this snapshot'') else
        and_then (js_includes message ''Nothing to claim'') (\<lambda>nothing.
        if nothing then Inr (JString ''No claimable amount available'') else
        and_then (js_includes message ''Deadline not reached'') (\<lambda>deadline.
        if deadline then Inr (JString ''Claim deadline has not been reached yet'') else
        and_then (js_includes message ''Insufficient balance'') (\<lambda>insufficient.
        if insufficient then Inr (JString ''Insufficient balance for this transaction'')
        else Inr message))))))
      else Inr (JString ''Unknown error occurred''))"

section \<open>The contract client (ENR1MClient)\<close>

subsection \<open>The transport and the world\<close>

text \<open>
  The client talks to deployed contracts through viem: every \<^verbatim>\<open>await\<close> on a contract
  read, a contract write, \<^verbatim>\<open>waitForTransactionReceipt\<close> or \<^verbatim>\<open>getAddresses\<close> is one remote
  call, which either resolves with a value of the type the ABI gives it or rejects. The
  transport is a parameter: it decides, for the call made as the \<open>n\<close>-th call of a run,
  whether it rejects (\<open>Inl\<close>, with the rejection's message) or what it resolves with.
  A receipt is modelled by its block number, the only field the client reads.
  \<^verbatim>\<open>Date.now()\<close> is read off the transport as well.
\<close>

type_synonym address = string
type_synonym hash = string

record transport =
  token_balanceOf :: "address \<Rightarrow> nat \<Rightarrow> string + int"
  token_balanceOfAt :: "address \<Rightarrow> int \<Rightarrow> nat \<Rightarrow> string + int"
  token_totalSupplyAt :: "int \<Rightarrow> nat \<Rightarrow> string + int"
  token_eligibleSupplyAt :: "int \<Rightarrow> nat \<Rightarrow> string + int"
  token_hasRole :: "string \<Rightarrow> address \<Rightarrow> nat \<Rightarrow> string + bool"
  token_snapshot :: "nat \<Rightarrow> string + hash"
  distributor_claimable :: "int \<Rightarrow> address option \<Rightarrow> nat \<Rightarrow> string + int"
  distributor_getDistributionInfo :: "int \<Rightarrow> nat \<Rightarrow> string + (int \<times> int \<times> int \<times> int \<times> bool)"
  distributor_claimed :: "int \<Rightarrow> address option \<Rightarrow> nat \<Rightarrow> string + bool"
  distributor_claim :: "int \<Rightarrow> nat \<Rightarrow> string + hash"
  distributor_distribute :: "int \<Rightarrow> int \<Rightarrow> nat \<Rightarrow> string + hash"
  usdc_balanceOf :: "address option \<Rightarrow> nat \<Rightarrow> string + int"
  usdc_approve :: "address \<Rightarrow> int \<Rightarrow> nat \<Rightarrow> string + hash"
  vault_deposit :: "int \<Rightarrow> nat \<Rightarrow> string + hash"
  vault_fundDistribution :: "int \<Rightarrow> nat \<Rightarrow> string + hash"
  waitForTransactionReceipt :: "hash \<Rightarrow> nat \<Rightarrow> string + int"
  getAddresses :: "nat \<Rightarrow> string + address list"
  date_now :: "nat \<Rightarrow> int"

text \<open>
  What a run leaves behind: the number of remote calls made so far, the positions of
  those that were rejected, and the lines written with \<^verbatim>\<open>console.warn\<close>.
\<close>

datatype thrown =
    Rejected string
  | NativeError js_error
  | PlainError string
  | ContractInteractionError string string string
  | InsufficientBalanceError int int string
  | ClaimDeadlinePassedError int int

record world =
  clock :: nat
  failed_calls :: "nat list"
  console :: "(string \<times> thrown) list"

text \<open>
  The values thrown inside the client: a remote call's rejection, a native error, a
  plain \<^verbatim>\<open>Error\<close> with its message, and the SDK's error classes with their fields
  (\<open>ContractInteractionError\<close>: message, contract name, function name; the original error
  it also carries is not modelled). An asynchronous method is a function of the world
  that returns what it resolves with or what it rejects with, and the world after it.
\<close>

type_synonym 'a io = "world \<Rightarrow> (thrown + 'a) \<times> world"

definition return_io :: "'a \<Rightarrow> 'a io" where
  "return_io v w = (Inr v, w)"

definition throw :: "thrown \<Rightarrow> 'a io" where
  "throw e w = (Inl e, w)"

definition bind_io :: "'a io \<Rightarrow> ('a \<Rightarrow> 'b io) \<Rightarrow> 'b io" where
  "bind_io m k w = (case m w of (Inl e, w') \<Rightarrow> (Inl e, w') | (Inr x, w') \<Rightarrow> k x w')"

definition try_catch :: "'a io \<Rightarrow> (thrown \<Rightarrow> 'a io) \<Rightarrow> 'a io" where
  "try_catch m handler w =
     (case m w of (Inl e, w') \<Rightarrow> handler e w' | (Inr x, w') \<Rightarrow> (Inr x, w'))"

definition await_call :: "(nat \<Rightarrow> string + 'a) \<Rightarrow> 'a io" where
  "await_call call w =
     (case call (clock w) of
        Inl msg \<Rightarrow> (Inl (Rejected msg),
                    w\<lparr>clock := Suc (clock w), failed_calls := failed_calls w @ [clock w]\<rparr>)
      | Inr v \<Rightarrow> (Inr v, w\<lparr>clock := Suc (clock w)\<rparr>))"

definition read_date_now :: "transport \<Rightarrow> int io" where
  "read_date_now T w = (Inr (date_now T (clock w)), w)"

definition console_warn :: "string \<Rightarrow> thrown \<Rightarrow> unit io" where
  "console_warn line e w = (Inr (), w\<lparr>console := console w @ [(line, e)]\<rparr>)"

text \<open>
  \<^verbatim>\<open>Promise.all([p, q])\<close>: both computations are started, in the order of the array, so
  both remote calls are made; it resolves with both values or rejects. Which rejection
  it reports when several occur depends on their timing; the model reports the first of
  the array, and every caller replaces it by its own error.
\<close>

definition promise_all2 :: "'a io \<Rightarrow> 'b io \<Rightarrow> ('a \<times> 'b) io" where
  "promise_all2 p q w =
     (case p w of (r1, w1) \<Rightarrow>
      case q w1 of (r2, w2) \<Rightarrow>
        (case r1 of Inl e \<Rightarrow> Inl e
         | Inr a \<Rightarrow> (case r2 of Inl e \<Rightarrow> Inl e | Inr b \<Rightarrow> Inr (a, b)), w2))"

subsection \<open>Configuration and results\<close>

record contract_addresses =
  token :: address
  distributor :: address
  revenueVault :: address
  usdc :: address

record contract_config =
  addresses :: contract_addresses
  walletClient :: bool

record distribution_info =
  totalAmount :: int
  claimedAmount :: int
  createdAt :: int
  deadlineAt :: int
  isActive :: bool

record user_info =
  ui_balance :: int
  ui_balanceAtSnapshot :: int
  ui_claimableAmount :: int
  ui_hasClaimed :: bool

record snapshot_result =
  sr_snapshotId :: int
  sr_blockNumber :: int
  sr_timestamp :: int
  sr_totalSupply :: int
  sr_eligibleSupply :: int

record distribution_result =
  dr_snapshotId :: int
  dr_amount :: int
  dr_timestamp :: int
  dr_transactionHash :: hash

record claim_result =
  cr_snapshotId :: int
  cr_amount :: int
  cr_user :: "address option"
  cr_timestamp :: int
  cr_transactionHash :: hash

text \<open>
  \<^verbatim>\<open>const [account] = await walletClient.getAddresses()\<close> binds the first address, or
  \<^verbatim>\<open>undefined\<close> when the wallet lists none.
\<close>

definition first_account :: "address list \<Rightarrow> address option" where
  "first_account addrs = (case addrs of [] \<Rightarrow> None | a # _ \<Rightarrow> Some a)"

text \<open>
  \<^verbatim>\<open>new ClaimDeadlinePassedError(snapshotId, deadline)\<close> formats
  \<^verbatim>\<open>new Date(Number(deadline) * 1000).toISOString()\<close> into its message, and
  \<^verbatim>\<open>toISOString\<close> throws a \<^verbatim>\<open>RangeError\<close> beyond 8.64e15 milliseconds from the epoch.
\<close>

definition new_ClaimDeadlinePassedError :: "int \<Rightarrow> int \<Rightarrow> thrown" where
  "new_ClaimDeadlinePassedError snapshotId deadline =
     (if \<bar>deadline * 1000\<bar> > 8640000000000000 then NativeError RangeError
      else ClaimDeadlinePassedError snapshotId deadline)"

definition wallet_required :: thrown where
  "wallet_required = PlainError ''Wallet client required for write operations''"

subsection \<open>Token operations\<close>

text \<open>
  In every read, \<^verbatim>\<open>BigInt(result.toString())\<close> is the \<^verbatim>\<open>bigint\<close> the call resolved with,
  and \<^verbatim>\<open>Boolean(result)\<close> the boolean.
\<close>

definition getTokenBalance :: "transport \<Rightarrow> address \<Rightarrow> int io" where
  "getTokenBalance T address =
     try_catch
       (bind_io (await_call (token_balanceOf T address)) (\<lambda>result. return_io result))
       (\<lambda>error. throw (ContractInteractionError
          ''Failed to get token balance'' ''ENR1MToken'' ''balanceOf''))"

definition getTokenBalanceAtSnapshot :: "transport \<Rightarrow> address \<Rightarrow> int \<Rightarrow> int io" where
  "getTokenBalanceAtSnapshot T address snapshotId =
     try_catch
       (bind_io (await_call (token_balanceOfAt T address snapshotId))
          (\<lambda>result. return_io result))
       (\<lambda>error. throw (ContractInteractionError
          ''Failed to get token balance at snapshot'' ''ENR1MToken'' ''balanceOfAt''))"

definition getTotalSupplyAtSnapshot :: "transport \<Rightarrow> int \<Rightarrow> int io" where
  "getTotalSupplyAtSnapshot T snapshotId =
     try_catch
       (bind_io (await_call (token_totalSupplyAt T snapshotId)) (\<lambda>result. return_io result))
       (\<lambda>error. throw (ContractInteractionError
          ''Failed to get total supply at snapshot'' ''ENR1MToken'' ''totalSupplyAt''))"

definition getEligibleSupplyAtSnapshot :: "transport \<Rightarrow> int \<Rightarrow> int io" where
  "getEligibleSupplyAtSnapshot T snapshotId =
     try_catch
       (bind_io (await_call (token_eligibleSupplyAt T snapshotId))
          (\<lambda>result. return_io result))
       (\<lambda>error. throw (ContractInteractionError
          ''Failed to get eligible supply at snapshot'' ''ENR1MToken'' ''eligibleSupplyAt''))"

text \<open>
  \<^verbatim>\<open>createSnapshot\<close>: the snapshot identifier is the placeholder \<^verbatim>\<open>BigInt(Date.now())\<close>.
\<close>

definition createSnapshot :: "contract_config \<Rightarrow> transport \<Rightarrow> snapshot_result io" where
  "createSnapshot cfg T =
     (if \<not> walletClient cfg then throw wallet_required
      else
        try_catch
          (bind_io (await_call (token_snapshot T)) (\<lambda>hash.
           bind_io (await_call (waitForTransactionReceipt T hash)) (\<lambda>blockNumber.
           bind_io (read_date_now T) (\<lambda>snapshotId.
           bind_io (promise_all2 (getTotalSupplyAtSnapshot T snapshotId)
                                 (getEligibleSupplyAtSnapshot T snapshotId))
             (\<lambda>(totalSupply, eligibleSupply).
           bind_io (read_date_now T) (\<lambda>now.
             return_io \<lparr>sr_snapshotId = snapshotId, sr_blockNumber = blockNumber,
                        sr_timestamp = now div 1000, sr_totalSupply = totalSupply,
                        sr_eligibleSupply = eligibleSupply\<rparr>))))))
          (\<lambda>error. throw (ContractInteractionError
             ''Failed to create snapshot'' ''ENR1MToken'' ''snapshot'')))"

subsection \<open>Distribution operations\<close>

definition getClaimableAmount :: "transport \<Rightarrow> address option \<Rightarrow> int \<Rightarrow> int io" where
  "getClaimableAmount T address snapshotId =
     try_catch
       (bind_io (await_call (distributor_claimable T snapshotId address))
          (\<lambda>result. return_io result))
       (\<lambda>error. throw (ContractInteractionError
          ''Failed to get claimable amount'' ''Distributor'' ''claimable''))"

definition getDistributionInfo :: "transport \<Rightarrow> int \<Rightarrow> distribution_info io" where
  "getDistributionInfo T snapshotId =
     try_catch
       (bind_io (await_call (distributor_getDistributionInfo T snapshotId))
          (\<lambda>(total, claimed, created, deadline, active).
             return_io \<lparr>totalAmount = total, claimedAmount = claimed, createdAt = created,
                        deadlineAt = deadline, isActive = active\<rparr>))
       (\<lambda>error. throw (ContractInteractionError
          ''Failed to get distribution info'' ''Distributor'' ''getDistributionInfo''))"

definition getUserInfo :: "transport \<Rightarrow> address \<Rightarrow> int \<Rightarrow> user_info io" where
  "getUserInfo T address snapshotId =
     try_catch
       (bind_io
          (promise_all2 (getTokenBalance T address)
          (promise_all2 (getTokenBalanceAtSnapshot T address snapshotId)
          (promise_all2 (getClaimableAmount T (Some address) snapshotId)
                        (await_call (distributor_claimed T snapshotId (Some address))))))
          (\<lambda>(balance, balanceAtSnapshot, claimableAmount, hasClaimed).
             return_io \<lparr>ui_balance = balance, ui_balanceAtSnapshot = balanceAtSnapshot,
                        ui_claimableAmount = claimableAmount, ui_hasClaimed = hasClaimed\<rparr>))
       (\<lambda>error. throw (ContractInteractionError
          ''Failed to get user info'' ''Multiple contracts'' ''getUserInfo''))"

definition claim :: "contract_config \<Rightarrow> transport \<Rightarrow> int \<Rightarrow> claim_result io" where
  "claim cfg T snapshotId =
     (if \<not> walletClient cfg then throw wallet_required
      else
        try_catch
          (bind_io (await_call (getAddresses T)) (\<lambda>addrs.
           let account = first_account addrs in
           bind_io
             (promise_all2 (getClaimableAmount T account snapshotId)
             (promise_all2 (await_call (distributor_claimed T snapshotId account))
                           (getDistributionInfo T snapshotId)))
             (\<lambda>(claimableAmount, hasClaimed, distributionInfo).
           if hasClaimed then throw (PlainError ''Already claimed for this snapshot'')
           else if claimableAmount = 0 then
             throw (PlainError ''Nothing to claim for this snapshot'')
           else if \<not> isActive distributionInfo then
             throw (new_ClaimDeadlinePassedError snapshotId (deadlineAt distributionInfo))
           else
             bind_io (await_call (distributor_claim T snapshotId)) (\<lambda>hash.
             bind_io (await_call (waitForTransactionReceipt T hash)) (\<lambda>receipt.
             bind_io (read_date_now T) (\<lambda>now.
               return_io \<lparr>cr_snapshotId = snapshotId, cr_amount = claimableAmount,
                          cr_user = account, cr_timestamp = now div 1000,
                          cr_transactionHash = hash\<rparr>))))))
          (\<lambda>error. case error of
               ClaimDeadlinePassedError s d \<Rightarrow> throw error
             | _ \<Rightarrow> throw (ContractInteractionError
                     ''Failed to claim profits'' ''Distributor'' ''claim'')))"

text \<open>
  \<^verbatim>\<open>claimMultiple\<close>: the loop claims the snapshots one by one; a claim that rejects is
  reported with \<^verbatim>\<open>console.warn\<close> and the loop goes on with the results it has.
\<close>

fun claim_each ::
  "contract_config \<Rightarrow> transport \<Rightarrow> int list \<Rightarrow> claim_result list \<Rightarrow> claim_result list io" where
  "claim_each cfg T [] results = return_io results"
| "claim_each cfg T (snapshotId # rest) results =
     bind_io
       (try_catch
          (bind_io (claim cfg T snapshotId) (\<lambda>result. return_io (results @ [result])))
          (\<lambda>error.
             bind_io (console_warn
                        (''Failed to claim snapshot '' @ bigint_toString snapshotId @ '':'')
                        error)
               (\<lambda>u. return_io results)))
       (\<lambda>results'. claim_each cfg T rest results')"

definition claimMultiple ::
  "contract_config \<Rightarrow> transport \<Rightarrow> int list \<Rightarrow> claim_result list io" where
  "claimMultiple cfg T snapshotIds =
     (if \<not> walletClient cfg then throw wallet_required
      else
        try_catch
          (bind_io (await_call (getAddresses T)) (\<lambda>addrs.
           claim_each cfg T snapshotIds []))
          (\<lambda>error. throw (ContractInteractionError
             ''Failed to claim multiple profits'' ''Distributor'' ''claimMultiple'')))"

subsection \<open>Operator operations\<close>

definition depositRevenue :: "contract_config \<Rightarrow> transport \<Rightarrow> int \<Rightarrow> hash io" where
  "depositRevenue cfg T amount =
     (if \<not> walletClient cfg then throw wallet_required
      else
        try_catch
          (bind_io (await_call (getAddresses T)) (\<lambda>addrs.
           let account = first_account addrs in
           bind_io (await_call (usdc_balanceOf T account)) (\<lambda>balance.
           if balance < amount then
             throw (InsufficientBalanceError amount balance ''USDC'')
           else
             bind_io (await_call (usdc_approve T (revenueVault (addresses cfg)) amount))
               (\<lambda>approveHash.
             bind_io (await_call (waitForTransactionReceipt T approveHash)) (\<lambda>receipt1.
             bind_io (await_call (vault_deposit T amount)) (\<lambda>depositHash.
             bind_io (await_call (waitForTransactionReceipt T depositHash)) (\<lambda>receipt2.
               return_io depositHash)))))))
          (\<lambda>error. case error of
               InsufficientBalanceError r a t \<Rightarrow> throw error
             | _ \<Rightarrow> throw (ContractInteractionError
                     ''Failed to deposit revenue'' ''RevenueVault'' ''deposit'')))"

definition fundDistribution :: "contract_config \<Rightarrow> transport \<Rightarrow> int \<Rightarrow> hash io" where
  "fundDistribution cfg T amount =
     (if \<not> walletClient cfg then throw wallet_required
      else
        try_catch
          (bind_io (await_call (vault_fundDistribution T amount)) (\<lambda>hash.
           bind_io (await_call (waitForTransactionReceipt T hash)) (\<lambda>receipt.
             return_io hash)))
          (\<lambda>error. throw (ContractInteractionError
             ''Failed to fund distribution'' ''RevenueVault'' ''fundDistribution'')))"

definition createDistribution ::
  "contract_config \<Rightarrow> transport \<Rightarrow> int \<Rightarrow> int \<Rightarrow> distribution_result io" where
  "createDistribution cfg T snapshotId amount =
     (if \<not> walletClient cfg then throw wallet_required
      else
        try_catch
          (bind_io (await_call (distributor_distribute T snapshotId amount)) (\<lambda>hash.
           bind_io (await_call (waitForTransactionReceipt T hash)) (\<lambda>receipt.
           bind_io (read_date_now T) (\<lambda>now.
             return_io \<lparr>dr_snapshotId = snapshotId, dr_amount = amount,
                        dr_timestamp = now div 1000, dr_transactionHash = hash\<rparr>))))
          (\<lambda>error. throw (ContractInteractionError
             ''Failed to create distribution'' ''Distributor'' ''distribute'')))"

subsection \<open>Utility methods\<close>

text \<open>\<^verbatim>\<open>hasRole\<close>: the role string is passed on as the role hash; a rejection answers false.\<close>

definition hasRole :: "transport \<Rightarrow> string \<Rightarrow> address \<Rightarrow> bool io" where
  "hasRole T role address =
     try_catch
       (bind_io (await_call (token_hasRole T role address)) (\<lambda>result. return_io result))
       (\<lambda>error. return_io False)"

section \<open>Vocabulary for the propagation of remote failures\<close>

text \<open>
  A remote failure during a method shows in the world: the list of rejected calls has
  grown. A method propagates remote failures as errors of a kind \<open>Q\<close> when, whenever a
  call it made was rejected, it rejects itself, with an error of that kind.
\<close>

fun is_ContractInteractionError :: "thrown \<Rightarrow> bool" where
  "is_ContractInteractionError (ContractInteractionError m c f) = True"
| "is_ContractInteractionError e = False"

fun is_rejection_or_wrapped :: "thrown \<Rightarrow> bool" where
  "is_rejection_or_wrapped (Rejected m) = True"
| "is_rejection_or_wrapped (ContractInteractionError m c f) = True"
| "is_rejection_or_wrapped e = False"

definition propagates_as :: "(thrown \<Rightarrow> bool) \<Rightarrow> 'a io \<Rightarrow> bool" where
  "propagates_as Q m =
     (\<forall>w. failed_calls (snd (m w)) \<noteq> failed_calls w \<longrightarrow> (\<exists>e. fst (m w) = Inl e \<and> Q e))"

definition throws_only :: "(thrown \<Rightarrow> bool) \<Rightarrow> 'a io \<Rightarrow> bool" where
  "throws_only Q m = (\<forall>w e. fst (m w) = Inl e \<longrightarrow> Q e)"

text \<open>The same for one run: the outcome of a method started in the world \<open>w\<close>.\<close>

definition propagated :: "(thrown + 'a) \<times> world \<Rightarrow> world \<Rightarrow> bool" where
  "propagated outcome w =
     (failed_calls (snd outcome) \<noteq> failed_calls w \<longrightarrow>
        (case fst outcome of Inl e \<Rightarrow> is_ContractInteractionError e | Inr v \<Rightarrow> False))"

definition warning_line :: "int \<Rightarrow> string" where
  "warning_line snapshotId = ''Failed to claim snapshot '' @ bigint_toString snapshotId @ '':''"

text \<open>
  What a batch of claims is measured against: the outcomes of \<open>claim\<close> on the snapshots
  in turn, each claim started in the world the previous one left; the results of the
  claims that resolved; and one warning line, with the error, for each that rejected.
\<close>

fun claims_in_turn ::
  "contract_config \<Rightarrow> transport \<Rightarrow> int list \<Rightarrow> world
     \<Rightarrow> (int \<times> (thrown + claim_result)) list \<times> world" where
  "claims_in_turn cfg T [] w = ([], w)"
| "claims_in_turn cfg T (snapshotId # rest) w =
     (case claim cfg T snapshotId w of (outcome, w1) \<Rightarrow>
      case claims_in_turn cfg T rest w1 of (outcomes, w2) \<Rightarrow>
        ((snapshotId, outcome) # outcomes, w2))"

fun succeeded_claims :: "(int \<times> (thrown + claim_result)) list \<Rightarrow> claim_result list" where
  "succeeded_claims [] = []"
| "succeeded_claims ((snapshotId, Inr result) # outcomes) = result # succeeded_claims outcomes"
| "succeeded_claims ((snapshotId, Inl e) # outcomes) = succeeded_claims outcomes"

fun failure_warnings :: "(int \<times> (thrown + claim_result)) list \<Rightarrow> (string \<times> thrown) list" where
  "failure_warnings [] = []"
| "failure_warnings ((snapshotId, Inl e) # outcomes) =
     (warning_line snapshotId, e) # failure_warnings outcomes"
| "failure_warnings ((snapshotId, Inr result) # outcomes) = failure_warnings outcomes"

text \<open>A method is blind to the console when the lines written so far change nothing of
  its run but the console it hands on.\<close>

definition console_blind :: "'a io \<Rightarrow> bool" where
  "console_blind m =
     (\<forall>w c. m (w\<lparr>console := c\<rparr>) = (fst (m w), (snd (m w))\<lparr>console := c\<rparr>))"

text \<open>
  Transports and a configuration to run the client on: one on which every call is
  rejected, and one that resolves every call, except the claim of snapshot 2.
\<close>

definition rejecting_transport :: transport where
  "rejecting_transport =
     \<lparr>token_balanceOf = (\<lambda>a n. Inl ''connection refused''),
      token_balanceOfAt = (\<lambda>a i n. Inl ''connection refused''),
      token_totalSupplyAt = (\<lambda>i n. Inl ''connection refused''),
      token_eligibleSupplyAt = (\<lambda>i n. Inl ''connection refused''),
      token_hasRole = (\<lambda>r a n. Inl ''connection refused''),
      token_snapshot = (\<lambda>n. Inl ''connection refused''),
      distributor_claimable = (\<lambda>i a n. Inl ''connection refused''),
      distributor_getDistributionInfo = (\<lambda>i n. Inl ''connection refused''),
      distributor_claimed = (\<lambda>i a n. Inl ''connection refused''),
      distributor_claim = (\<lambda>i n. Inl ''connection refused''),
      distributor_distribute = (\<lambda>i a n. Inl ''connection refused''),
      usdc_balanceOf = (\<lambda>a n. Inl ''connection refused''),
      usdc_approve = (\<lambda>a i n. Inl ''connection refused''),
      vault_deposit = (\<lambda>i n. Inl ''connection refused''),
      vault_fundDistribution = (\<lambda>i n. Inl ''connection refused''),
      waitForTransactionReceipt = (\<lambda>h n. Inl ''connection refused''),
      getAddresses = (\<lambda>n. Inl ''connection refused''),
      date_now = (\<lambda>n. 1700000000000)\<rparr>"

definition reverting_transport :: transport where
  "reverting_transport =
     \<lparr>token_balanceOf = (\<lambda>a n. Inr 1000),
      token_balanceOfAt = (\<lambda>a i n. Inr 1000),
      token_totalSupplyAt = (\<lambda>i n. Inr 350000),
      token_eligibleSupplyAt = (\<lambda>i n. Inr 315000),
      token_hasRole = (\<lambda>r a n. Inr True),
      token_snapshot = (\<lambda>n. Inr ''0x123hash''),
      distributor_claimable = (\<lambda>i a n. Inr 100),
      distributor_getDistributionInfo = (\<lambda>i n. Inr (15000, 5000, 1697472000, 1705248000, True)),
      distributor_claimed = (\<lambda>i a n. Inr False),
      distributor_claim =
        (\<lambda>i n. if i = 2 then Inl ''execution reverted: Already claimed'' else Inr ''0x456hash''),
      distributor_distribute = (\<lambda>i a n. Inr ''0x789hash''),
      usdc_balanceOf = (\<lambda>a n. Inr 5000),
      usdc_approve = (\<lambda>a i n. Inr ''0x111hash''),
      vault_deposit = (\<lambda>i n. Inr ''0xabchash''),
      vault_fundDistribution = (\<lambda>i n. Inr ''0xdefhash''),
      waitForTransactionReceipt = (\<lambda>h n. Inr 18000000),
      getAddresses = (\<lambda>n. Inr [''0xf39F'']),
      date_now = (\<lambda>n. 1700000000000)\<rparr>"

definition wallet_config :: contract_config where
  "wallet_config =
     \<lparr>addresses = \<lparr>token = ''0xe7f1'', distributor = ''0xCf7E'',
                    revenueVault = ''0x9fE4'', usdc = ''0x5FbD''\<rparr>,
      walletClient = True\<rparr>"

definition initial_world :: world where
  "initial_world = \<lparr>clock = 0, failed_calls = [], console = []\<rparr>"

section \<open>Facts about truncating division\<close>

lemma sdiv_nonneg_eq_div: "0 \<le> a \<Longrightarrow> 0 < b \<Longrightarrow> (a::int) sdiv b = a div b"
  by (cases "a = 0") (simp_all add: signed_divide_int_def)

lemma smod_nonneg_eq_mod: "0 \<le> a \<Longrightarrow> 0 < b \<Longrightarrow> (a::int) smod b = a mod b"
  by (cases "a = 0") (simp_all add: signed_modulo_int_def)

lemma calculateUserShare_nonneg:
  assumes "0 \<le> b" "0 \<le> p" "0 \<le> s"
  shows "calculateUserShare b p s = Inr (if s = 0 then 0 else (p * b) div s)"
proof (cases "s = 0")
  case True
  then show ?thesis by (simp add: calculateUserShare_def)
next
  case False
  with assms have "0 < s" and "0 \<le> p * b" by simp_all
  then show ?thesis
    by (simp add: calculateUserShare_def bigint_div_def sdiv_nonneg_eq_div)
qed

section \<open>Facts about decimal digit strings\<close>

lemma digit_char_zero: "digit_char 0 = CHR ''0''"
  unfolding digit_char_def by code_simp

lemma digit_val_digit_char: "d < 10 \<Longrightarrow> digit_val (digit_char d) = d"
  by (simp add: digit_val_def digit_char_def)

lemma is_digit_digit_char: "d < 10 \<Longrightarrow> is_digit (digit_char d)"
  by (simp add: is_digit_def digit_char_def)

lemma is_digit_zero: "is_digit (CHR ''0'')"
  by (simp add: is_digit_def)

lemma digit_val_zero: "digit_val (CHR ''0'') = 0"
  by (simp add: digit_val_def)

lemma is_digit_not_point: "is_digit c \<Longrightarrow> c \<noteq> CHR ''.''"
  by (auto simp: is_digit_def)

lemma foldl_digits_shift:
  "foldl (\<lambda>acc c. 10 * acc + digit_val c) a s
     = a * 10 ^ length s + foldl (\<lambda>acc c. 10 * acc + digit_val c) 0 s"
proof (induction s arbitrary: a)
  case Nil
  show ?case by simp
next
  case (Cons c s)
  let ?f = "\<lambda>acc c. 10 * acc + digit_val c"
  have "foldl ?f a (c # s) = (10 * a + digit_val c) * 10 ^ length s + foldl ?f 0 s"
    using Cons.IH [of "10 * a + digit_val c"] by simp
  moreover have "foldl ?f 0 (c # s) = digit_val c * 10 ^ length s + foldl ?f 0 s"
    using Cons.IH [of "digit_val c"] by simp
  ultimately show ?case
    by (simp only: length_Cons power_Suc distrib_right mult.assoc mult.left_commute [of a 10] add.assoc)
qed

lemma digits_value_append:
  "digits_value (xs @ ys) = digits_value xs * 10 ^ length ys + digits_value ys"
  unfolding digits_value_def foldl_append
  by (rule foldl_digits_shift)

lemma digits_value_snoc: "digits_value (xs @ [c]) = 10 * digits_value xs + digit_val c"
  by (simp add: digits_value_def)

lemma digits_value_zeros: "digits_value (replicate m (CHR ''0'')) = 0"
proof (induction m)
  case 0
  show ?case by (simp add: digits_value_def)
next
  case (Suc m)
  have "replicate (Suc m) (CHR ''0'') = replicate m (CHR ''0'') @ [CHR ''0'']"
    by (simp add: replicate_append_same)
  then show ?case
    using Suc by (simp only: digits_value_snoc digit_val_zero)
qed

lemma nat_digits_nonempty: "nat_digits n \<noteq> []"
  by (subst nat_digits.simps) simp

lemma nat_digits_all_digits: "list_all is_digit (nat_digits n)"
proof (induction n rule: nat_digits.induct)
  case (1 n)
  show ?case
  proof (cases "n < 10")
    case True
    then show ?thesis by (subst nat_digits.simps) (simp add: is_digit_digit_char)
  next
    case False
    with 1 show ?thesis by (subst nat_digits.simps) (simp add: is_digit_digit_char)
  qed
qed

lemma digits_value_nat_digits: "digits_value (nat_digits n) = n"
proof (induction n rule: nat_digits.induct)
  case (1 n)
  show ?case
  proof (cases "n < 10")
    case True
    then show ?thesis
      by (subst nat_digits.simps) (simp add: digits_value_def digit_val_digit_char)
  next
    case False
    with 1 have "digits_value (nat_digits (n div 10)) = n div 10" by simp
    with False show ?thesis
      by (subst nat_digits.simps) (simp add: digits_value_snoc digit_val_digit_char)
  qed
qed

lemma length_nat_digits: "n < 10 ^ k \<Longrightarrow> 0 < k \<Longrightarrow> length (nat_digits n) \<le> k"
proof (induction n arbitrary: k rule: nat_digits.induct)
  case (1 n)
  show ?case
  proof (cases "n < 10")
    case True
    with 1(3) show ?thesis by (subst nat_digits.simps) simp
  next
    case False
    obtain j where k: "k = Suc j" using 1(3) by (cases k) auto
    with False 1(2) have "0 < j" by (cases j) auto
    moreover from 1(2) k have "n div 10 < 10 ^ j"
      by (simp add: less_mult_imp_div_less mult.commute)
    ultimately have "length (nat_digits (n div 10)) \<le> j"
      using 1(1) False by simp
    with False k show ?thesis by (subst nat_digits.simps) simp
  qed
qed

lemma trimTrailingZeros_decomp:
  "s = trimTrailingZeros s @ replicate (length s - length (trimTrailingZeros s)) (CHR ''0'')"
proof -
  let ?P = "\<lambda>c. c = CHR ''0''"
  have tw: "takeWhile ?P xs = replicate (length (takeWhile ?P xs)) (CHR ''0'')" for xs
    by (induction xs) simp_all
  have "rev s = takeWhile ?P (rev s) @ dropWhile ?P (rev s)" by simp
  then have "s = rev (dropWhile ?P (rev s)) @ rev (takeWhile ?P (rev s))"
    by (metis rev_append rev_rev_ident)
  moreover have "rev (takeWhile ?P (rev s)) = replicate (length (takeWhile ?P (rev s))) (CHR ''0'')"
    by (subst tw) simp
  moreover have "length (takeWhile ?P (rev s)) = length s - length (trimTrailingZeros s)"
  proof -
    have "length (takeWhile ?P (rev s)) + length (dropWhile ?P (rev s)) = length (rev s)"
      by (metis length_append takeWhile_dropWhile_id)
    then show ?thesis by (simp add: trimTrailingZeros_def)
  qed
  ultimately show ?thesis by (simp add: trimTrailingZeros_def)
qed

lemma trimTrailingZeros_all_digits:
  "list_all is_digit s \<Longrightarrow> list_all is_digit (trimTrailingZeros s)"
  by (auto simp: trimTrailingZeros_def list_all_iff dest: set_dropWhileD)

lemma length_trimTrailingZeros: "length (trimTrailingZeros s) \<le> length s"
  using length_dropWhile_le [of "\<lambda>c. c = CHR ''0''" "rev s"]
  by (simp add: trimTrailingZeros_def)

section \<open>Facts about the display codec\<close>

lemma round_half_exact: "(2 * (m * 10 ^ k) + 10 ^ k) div (2 * 10 ^ k) = (m::nat)"
proof -
  have e1: "2 * (m * 10 ^ k) + 10 ^ k = (2 * m + 1) * 10 ^ k"
    by (simp add: algebra_simps)
  have "((2 * m + 1) * 10 ^ k) div (2 * 10 ^ k) = (2 * m + 1) div 2"
    by (rule div_mult_mult2) simp
  then show ?thesis
    unfolding e1 by simp
qed

lemma parse_whole_only:
  assumes "list_all is_digit ws" "ws \<noteq> []"
  shows "parseFromDisplayString ws e = Inr (int (digits_value ws * 10 ^ e))"
proof -
  have np: "\<And>c. c \<in> set ws \<Longrightarrow> c \<noteq> CHR ''.''"
    using assms(1) by (auto simp: list_all_iff dest: is_digit_not_point)
  then have tw: "takeWhile (\<lambda>c. c \<noteq> CHR ''.'') ws = ws"
    and dw: "dropWhile (\<lambda>c. c \<noteq> CHR ''.'') ws = []"
    by simp_all
  have "(2 * digits_value ws * 10 ^ e + 1) div 2 = digits_value ws * 10 ^ e"
    using round_half_exact [of "digits_value ws * 10 ^ e" 0] by (simp add: mult.assoc)
  then show ?thesis
    using assms by (simp add: parseFromDisplayString_def tw dw digits_value_def)
qed

lemma parse_with_fraction:
  assumes "list_all is_digit ws" "ws \<noteq> []" "list_all is_digit t" "t \<noteq> []"
    and "length t \<le> e"
  shows "parseFromDisplayString (ws @ CHR ''.'' # t) e
           = Inr (int (digits_value ws * 10 ^ e + digits_value t * 10 ^ (e - length t)))"
proof -
  let ?k = "length t"
  let ?m = "digits_value ws * 10 ^ e + digits_value t * 10 ^ (e - ?k)"
  have np: "\<And>c. c \<in> set ws \<Longrightarrow> c \<noteq> CHR ''.''"
    using assms(1) by (auto simp: list_all_iff dest: is_digit_not_point)
  then have tw: "takeWhile (\<lambda>c. c \<noteq> CHR ''.'') (ws @ CHR ''.'' # t) = ws"
    and dw: "dropWhile (\<lambda>c. c \<noteq> CHR ''.'') (ws @ CHR ''.'' # t) = CHR ''.'' # t"
    by (simp_all add: takeWhile_append2 dropWhile_append2)
  have split: "(10::nat) ^ e = 10 ^ (e - ?k) * 10 ^ ?k"
    using assms(5) by (simp add: power_add [symmetric])
  have "(digits_value ws * 10 ^ ?k + digits_value t) * 10 ^ e = ?m * 10 ^ ?k"
    by (subst (2) split, subst split) (simp add: algebra_simps)
  then have "2 * (digits_value ws * 10 ^ ?k + digits_value t) * 10 ^ e + 10 ^ ?k
               = 2 * (?m * 10 ^ ?k) + 10 ^ ?k"
    by (simp only: mult.assoc)
  then have "(2 * (digits_value ws * 10 ^ ?k + digits_value t) * 10 ^ e + 10 ^ ?k)
               div (2 * 10 ^ ?k) = ?m"
    by (simp only: round_half_exact)
  then show ?thesis
    using assms(1-4) by (simp add: parseFromDisplayString_def tw dw)
qed

lemma formatTokenDisplay_parse:
  assumes "0 \<le> a"
  shows "\<exists>s. formatTokenDisplay a (int e) = Inr s \<and> parseFromDisplayString s e = Inr a"
proof -
  define d :: int where "d = 10 ^ e"
  define w where "w = a div d"
  define f where "f = a mod d"
  have dpos: "0 < d" by (simp add: d_def)
  have wnn: "0 \<le> w" using assms dpos by (simp add: w_def pos_imp_zdiv_nonneg_iff)
  have fnn: "0 \<le> f" and flt: "f < d" using dpos by (simp_all add: f_def)
  have a_eq: "a = w * d + f" by (simp add: w_def f_def)
  have natd: "nat d = 10 ^ e" by (simp add: d_def nat_power_eq)
  have nata: "int (nat w * 10 ^ e + nat f) = a"
    using wnn fnn by (simp add: a_eq d_def)
  have pow: "bigint_pow 10 (int e) = Inr d" by (simp add: bigint_pow_def d_def)
  have dv: "bigint_div a d = Inr w"
    using assms dpos by (simp add: bigint_div_def w_def sdiv_nonneg_eq_div)
  have md: "bigint_mod a d = Inr f"
    using assms dpos by (simp add: bigint_mod_def f_def smod_nonneg_eq_mod)
  have wstr: "bigint_toString w = nat_digits (nat w)"
    using wnn by (simp add: bigint_toString_def)
  have fstr: "bigint_toString f = nat_digits (nat f)"
    using fnn by (simp add: bigint_toString_def)
  show ?thesis
  proof (cases "f = 0")
    case True
    then have "formatTokenDisplay a (int e) = Inr (nat_digits (nat w))"
      by (simp add: formatTokenDisplay_def and_then_def pow dv md wstr)
    moreover have "parseFromDisplayString (nat_digits (nat w)) e = Inr a"
      using parse_whole_only [OF nat_digits_all_digits nat_digits_nonempty, of "nat w" e]
        nata True by (simp add: digits_value_nat_digits)
    ultimately show ?thesis by simp
  next
    case False
    define fs where "fs = padStart e (CHR ''0'') (nat_digits (nat f))"
    define t where "t = trimTrailingZeros fs"
    have epos: "0 < e"
    proof (rule ccontr)
      assume "\<not> 0 < e"
      then have "d = 1" by (simp add: d_def)
      then show False using False by (simp add: f_def)
    qed
    have "nat f < 10 ^ e" using flt fnn natd by linarith
    then have len_le: "length (nat_digits (nat f)) \<le> e"
      using epos by (rule length_nat_digits)
    then have len_fs: "length fs = e" by (simp add: fs_def padStart_def)
    have val_fs: "digits_value fs = nat f"
      by (simp add: fs_def padStart_def digits_value_append digits_value_zeros
          digits_value_nat_digits)
    have dig_fs: "list_all is_digit fs"
      using nat_digits_all_digits [of "nat f"]
      by (auto simp: fs_def padStart_def list_all_iff is_digit_zero)
    have dig_t: "list_all is_digit t"
      unfolding t_def using dig_fs by (rule trimTrailingZeros_all_digits)
    have len_t: "length t \<le> e"
      using length_trimTrailingZeros [of fs] by (simp add: t_def len_fs)
    have fs_t: "fs = t @ replicate (e - length t) (CHR ''0'')"
      using trimTrailingZeros_decomp [of fs] by (simp add: t_def len_fs)
    have "digits_value fs = digits_value t * 10 ^ (e - length t)"
      by (subst fs_t) (simp add: digits_value_append digits_value_zeros)
    then have val_t: "digits_value t * 10 ^ (e - length t) = nat f"
      using val_fs by simp
    have t_ne: "t \<noteq> []"
    proof
      assume "t = []"
      with val_t have "nat f = 0" by (simp add: digits_value_def)
      with fnn False show False by simp
    qed
    have "formatTokenDisplay a (int e) = Inr (nat_digits (nat w) @ CHR ''.'' # t)"
      using False t_ne
      by (simp add: formatTokenDisplay_def and_then_def pow dv md wstr fstr
          fs_def [symmetric] t_def [symmetric] Let_def)
    moreover have "parseFromDisplayString (nat_digits (nat w) @ CHR ''.'' # t) e = Inr a"
      using parse_with_fraction [OF nat_digits_all_digits nat_digits_nonempty dig_t t_ne len_t,
          of "nat w"] nata
      by (simp add: digits_value_nat_digits val_t)
    ultimately show ?thesis by simp
  qed
qed

section \<open>Facts about the percentage formatter\<close>

lemma nat_digits_last: "\<exists>s. nat_digits n = s @ [digit_char (n mod 10)]"
  by (subst nat_digits.simps) simp

lemma digit_char_nonzero: "0 < d \<Longrightarrow> d < 10 \<Longrightarrow> digit_char d \<noteq> CHR ''0''"
  using digit_val_digit_char [of d] digit_val_zero by auto

lemma trimTrailingZeros_snoc: "c \<noteq> CHR ''0'' \<Longrightarrow> trimTrailingZeros (s @ [c]) = s @ [c]"
  by (simp add: trimTrailingZeros_def)

lemma nat_digits_zero: "nat_digits 0 = ''0''"
  by (subst nat_digits.simps) (simp add: digit_char_zero)

lemma trimTrailingZeros_padded_zero:
  "trimTrailingZeros (padStart 2 (CHR ''0'') (nat_digits 0)) = []"
  by (simp add: nat_digits_zero padStart_def trimTrailingZeros_def)

lemma trimTrailingZeros_padded_digits:
  assumes "n mod 10 \<noteq> 0"
  shows "trimTrailingZeros (padStart k (CHR ''0'') (nat_digits n))
           = padStart k (CHR ''0'') (nat_digits n)"
proof -
  obtain s where s: "nat_digits n = s @ [digit_char (n mod 10)]"
    using nat_digits_last by blast
  have "digit_char (n mod 10) \<noteq> CHR ''0''"
    using assms by (intro digit_char_nonzero) simp_all
  then have "trimTrailingZeros ((replicate (k - Suc (length s)) (CHR ''0'') @ s) @ [digit_char (n mod 10)])
      = (replicate (k - Suc (length s)) (CHR ''0'') @ s) @ [digit_char (n mod 10)]"
    by (rule trimTrailingZeros_snoc)
  then show ?thesis by (simp add: padStart_def s)
qed

lemma formatPercentage_nonneg:
  assumes "0 \<le> n" "0 < d"
  shows "formatPercentage n d p =
           Inr (if (n * 10000 div d) mod 100 = 0
                then bigint_toString ((n * 10000 div d) div 100) @ ''%''
                else bigint_toString ((n * 10000 div d) div 100) @ ''.''
                     @ padStart 2 (CHR ''0'') (bigint_toString ((n * 10000 div d) mod 100))
                     @ ''%'')"
proof -
  define q where "q = n * 10000 div d"
  have qnn: "0 \<le> q"
    using assms by (simp add: q_def pos_imp_zdiv_nonneg_iff)
  have "0 \<le> n * 10000" using assms by simp
  then have dv: "bigint_div (n * 10000) d = Inr q"
    using assms by (simp add: bigint_div_def q_def sdiv_nonneg_eq_div)
  have w: "bigint_div q 100 = Inr (q div 100)"
    using qnn by (simp add: bigint_div_def sdiv_nonneg_eq_div)
  have f: "bigint_mod q 100 = Inr (q mod 100)"
    using qnn by (simp add: bigint_mod_def smod_nonneg_eq_mod)
  show ?thesis
    using assms(2) by (simp add: formatPercentage_def and_then_def dv w f q_def [symmetric])
qed

lemma formatPercentage_agrees:
  assumes "0 \<le> n" "0 < d"
    and "(n * 10000 div d) mod 10 \<noteq> 0 \<or> (n * 10000 div d) mod 100 = 0"
  shows "formatPercentage n d p = Inr (formatPercentage_spec n d 2)"
proof -
  define q where "q = n * 10000 div d"
  define f where "f = q mod 100"
  have qnn: "0 \<le> q"
    using assms by (simp add: q_def pos_imp_zdiv_nonneg_iff)
  have fnn: "0 \<le> f" by (simp add: f_def)
  have fstr: "bigint_toString f = nat_digits (nat f)"
    using fnn by (simp add: bigint_toString_def)
  have code: "formatPercentage n d p =
      Inr (if f = 0 then bigint_toString (q div 100) @ ''%''
           else bigint_toString (q div 100) @ ''.''
                @ padStart 2 (CHR ''0'') (bigint_toString f) @ ''%'')"
    using formatPercentage_nonneg [OF assms(1,2)] by (simp add: q_def f_def)
  have spec: "formatPercentage_spec n d 2 =
      (let trimmed = trimTrailingZeros (padStart 2 (CHR ''0'') (bigint_toString f))
       in (if trimmed = [] then bigint_toString (q div 100)
           else bigint_toString (q div 100) @ ''.'' @ trimmed) @ ''%'')"
    using assms(2) by (simp add: formatPercentage_spec_def q_def f_def Let_def)
  show ?thesis
  proof (cases "f = 0")
    case True
    have "bigint_toString 0 = nat_digits 0"
      by (simp add: bigint_toString_def)
    with True show ?thesis
      by (simp add: code spec trimTrailingZeros_padded_zero)
  next
    case False
    with assms(3) have "q mod 10 \<noteq> 0" by (simp add: q_def f_def)
    moreover have "f mod 10 = q mod 10"
      by (simp add: f_def mod_mod_cancel)
    ultimately have "nat f mod 10 \<noteq> 0"
      using fnn by (metis nat_mod_distrib nat_numeral nat_eq_iff2 zero_le_numeral
          Euclidean_Rings.pos_mod_sign zero_less_numeral nat_0_iff le_less)
    then have keep: "trimTrailingZeros (padStart 2 (CHR ''0'') (nat_digits (nat f)))
                 = padStart 2 (CHR ''0'') (nat_digits (nat f))"
      by (rule trimTrailingZeros_padded_digits)
    have "padStart 2 (CHR ''0'') (nat_digits (nat f)) \<noteq> []"
      by (simp add: padStart_def nat_digits_nonempty)
    with False show ?thesis
      by (simp add: code spec fstr keep)
  qed
qed

lemma two_fraction_digits:
  assumes "0 \<le> f" "f < 100"
  shows "length (padStart 2 (CHR ''0'') (bigint_toString f)) = 2"
    and "list_all is_digit (padStart 2 (CHR ''0'') (bigint_toString f))"
proof -
  have str: "bigint_toString f = nat_digits (nat f)"
    using assms(1) by (simp add: bigint_toString_def)
  have "nat f < 10 ^ 2" using assms by simp
  then have "length (nat_digits (nat f)) \<le> 2"
    by (rule length_nat_digits) simp
  then show "length (padStart 2 (CHR ''0'') (bigint_toString f)) = 2"
    by (simp add: str padStart_def)
  show "list_all is_digit (padStart 2 (CHR ''0'') (bigint_toString f))"
    using nat_digits_all_digits [of "nat f"]
    by (auto simp: str padStart_def list_all_iff is_digit_zero)
qed

section \<open>Pro-rata share\<close>

text \<open>
  C1. For non-negative amounts, \<open>calculateUserShare\<close> returns 0 when the eligible supply
  is 0 and otherwise the floor of \<open>poolTotal * holderBalance / eligibleSupply\<close>, the
  product being formed before the division; the scenario of 10000 tokens out of 315000
  on a pool of 15000 settlement units gives 476190476.
\<close>

theorem calculateUserShare_floor:
  "0 \<le> holderBalance \<Longrightarrow> 0 \<le> poolTotal \<Longrightarrow> 0 \<le> eligibleSupply \<Longrightarrow>
     calculateUserShare holderBalance poolTotal eligibleSupply =
       Inr (if eligibleSupply = 0 then 0
            else (poolTotal * holderBalance) div eligibleSupply)
     \<and> calculateUserShare (10000 * 10 ^ 18) (15000 * 10 ^ 6) (315000 * 10 ^ 18)
         = Inr 476190476"
  by (simp add: calculateUserShare_nonneg)

theorem calculateUserShare_floor_witness:
  "(0::int) \<le> 7 \<and> (0::int) \<le> 10 \<and> (0::int) \<le> 3
   \<and> calculateUserShare 7 10 3 = Inr 23
   \<and> calculateUserShare 7 10 0 = Inr 0"
  using calculateUserShare_floor [of 7 10 3] calculateUserShare_floor [of 7 10 0]
  by simp

text \<open>
  C6. For non-negative amounts \<open>calculateUserShare\<close> does not throw: it returns a share,
  and the share is at most the pool whenever the holder's balance is at most the
  eligible supply.
\<close>

theorem calculateUserShare_bounded:
  assumes "0 \<le> holderBalance" "0 \<le> poolTotal" "0 \<le> eligibleSupply"
  shows "\<exists>share. calculateUserShare holderBalance poolTotal eligibleSupply = Inr share
           \<and> (holderBalance \<le> eligibleSupply \<longrightarrow> share \<le> poolTotal)"
proof (cases "eligibleSupply = 0")
  case True
  with assms show ?thesis by (simp add: calculateUserShare_def)
next
  case False
  with assms have pos: "0 < eligibleSupply" by simp
  have "(poolTotal * holderBalance) div eligibleSupply \<le> poolTotal"
    if "holderBalance \<le> eligibleSupply"
  proof -
    have "poolTotal * holderBalance \<le> poolTotal * eligibleSupply"
      using that assms(2) by (rule mult_left_mono)
    then have "(poolTotal * holderBalance) div eligibleSupply
                 \<le> (poolTotal * eligibleSupply) div eligibleSupply"
      using pos by (rule zdiv_mono1)
    also have "\<dots> = poolTotal"
      using pos by simp
    finally show ?thesis .
  qed
  with assms False show ?thesis by (simp add: calculateUserShare_nonneg)
qed

theorem calculateUserShare_bounded_witness:
  "\<exists>share. calculateUserShare 3 10 7 = Inr share \<and> share \<le> 10"
  using calculateUserShare_bounded [of 3 10 7] by simp

text \<open>
  C7. For a fixed non-negative pool and a fixed positive eligible supply,
  \<open>calculateUserShare\<close> is non-decreasing in the holder's balance.
\<close>

theorem calculateUserShare_mono:
  assumes "0 \<le> bal1" "bal1 \<le> bal2" "0 \<le> poolTotal" "0 < eligibleSupply"
  shows "\<exists>s1 s2. calculateUserShare bal1 poolTotal eligibleSupply = Inr s1
           \<and> calculateUserShare bal2 poolTotal eligibleSupply = Inr s2 \<and> s1 \<le> s2"
proof -
  have "poolTotal * bal1 \<le> poolTotal * bal2"
    using assms(2,3) by (rule mult_left_mono)
  then have "(poolTotal * bal1) div eligibleSupply \<le> (poolTotal * bal2) div eligibleSupply"
    using assms(4) by (rule zdiv_mono1)
  with assms show ?thesis by (simp add: calculateUserShare_nonneg)
qed

theorem calculateUserShare_mono_witness:
  "\<exists>s1 s2. calculateUserShare 2 10 3 = Inr s1
     \<and> calculateUserShare 5 10 3 = Inr s2 \<and> s1 \<le> s2"
  using calculateUserShare_mono [of 2 5 10 3] by simp

section \<open>Snapshot identifiers\<close>

text \<open>
  C10. \<open>validateSnapshotId\<close> answers true exactly for the identifiers greater than 0;
  it rejects 0 and accepts 1.
\<close>

theorem validateSnapshotId_iff:
  "(validateSnapshotId snapshotId \<longleftrightarrow> snapshotId > 0)
   \<and> \<not> validateSnapshotId 0 \<and> validateSnapshotId 1"
  by (simp add: validateSnapshotId_def)

section \<open>Display round trip\<close>

text \<open>
  C2. For every non-negative amount and every exponent from 0 to 77, the display
  formatter returns a string, and parsing that string at the same exponent gives the
  amount back.
\<close>

theorem display_roundtrip:
  "0 \<le> a \<Longrightarrow> e \<le> 77 \<Longrightarrow>
     \<exists>s. formatTokenDisplay a (int e) = Inr s \<and> parseFromDisplayString s e = Inr a"
  by (rule formatTokenDisplay_parse)

theorem display_roundtrip_witness:
  "(0::int) \<le> 1050 \<and> (3::nat) \<le> 77
   \<and> (\<exists>s. formatTokenDisplay 1050 (int 3) = Inr s \<and> parseFromDisplayString s 3 = Inr 1050)"
  using display_roundtrip [of 1050 3] by simp

text \<open>The same round trip through the client's two parsers, at their fixed exponents.\<close>

lemma parseTokenAmount_roundtrip:
  "0 \<le> a \<Longrightarrow> \<exists>s. formatTokenDisplay a 18 = Inr s \<and> parseTokenAmount s = Inr a"
  using formatTokenDisplay_parse [of a 18] by (simp add: parseTokenAmount_def)

lemma parseUSDCAmount_roundtrip:
  "0 \<le> a \<Longrightarrow> \<exists>s. formatUSDCDisplay a = Inr s \<and> parseUSDCAmount s = Inr a"
  using formatTokenDisplay_parse [of a 6]
  by (simp add: parseUSDCAmount_def formatUSDCDisplay_def)

lemma display_examples:
  "formatTokenDisplay 1500 3 = Inr ''1.5''"
  "formatTokenDisplay 1000000 6 = Inr ''1''"
  by code_simp+

lemma parse_example: "parseFromDisplayString ''1.5'' 3 = Inr 1500"
  by (simp add: parseFromDisplayString_def is_digit_def digits_value_def digit_val_def)

section \<open>Percentages\<close>

text \<open>
  C3, as the specification states it: the result is the specification's string, with the
  trailing zeros of the fraction trimmed. The source keeps them: for 505 out of 1000 it
  answers \<open>50.50%\<close>, the specification's formatter \<open>50.5%\<close>.
\<close>

theorem formatPercentage_keeps_trailing_zero:
  "formatPercentage 505 1000 2 = Inr ''50.50%''
   \<and> formatPercentage_spec 505 1000 2 = ''50.5%''
   \<and> formatPercentage 505 1000 2 \<noteq> Inr (formatPercentage_spec 505 1000 2)"
proof -
  have code: "formatPercentage 505 1000 2 = Inr ''50.50%''"
    by code_simp
  have spec: "formatPercentage_spec 505 1000 2 = ''50.5%''"
    by code_simp
  show ?thesis
    unfolding code spec by simp
qed

text \<open>
  C3, amended. For a non-negative numerator, a positive denominator and two precision
  digits, \<open>formatPercentage\<close> divides \<open>n * 10 ^ (2 + 2)\<close> by \<open>d\<close> with integer division
  and splits the quotient into the whole percentage and two fractional digits; a zero
  fraction is left out with its point, any other is written with exactly two digits,
  zero-padded and with its trailing zero kept. Where the fraction has no trailing zero
  to trim, or is zero, this is the specification's string.
\<close>

theorem formatPercentage_two_digits:
  "0 \<le> n \<Longrightarrow> 0 < d \<Longrightarrow>
     formatPercentage n d 2 =
       Inr (let scaled = n * 10 ^ (2 + 2) div d;
                whole = scaled div 10 ^ 2;
                fraction = scaled mod 10 ^ 2
            in if fraction = 0 then bigint_toString whole @ ''%''
               else bigint_toString whole @ ''.''
                    @ padStart 2 (CHR ''0'') (bigint_toString fraction) @ ''%'')
     \<and> ((n * 10 ^ (2 + 2) div d) mod 10 \<noteq> 0 \<or> (n * 10 ^ (2 + 2) div d) mod 10 ^ 2 = 0
          \<longrightarrow> formatPercentage n d 2 = Inr (formatPercentage_spec n d 2))"
  using formatPercentage_nonneg [of n d 2] formatPercentage_agrees [of n d 2]
  by (simp add: Let_def)

theorem formatPercentage_two_digits_witness:
  "(0::int) \<le> 3333 \<and> (0::int) < 10000
   \<and> formatPercentage 3333 10000 2 = Inr ''33.33%''
   \<and> formatPercentage 3333 10000 2 = Inr (formatPercentage_spec 3333 10000 2)"
proof -
  have at_scenario: "formatPercentage 3333 10000 2 = Inr ''33.33%''"
    by code_simp
  have "(3333 * 10 ^ (2 + 2) div 10000) mod 10 \<noteq> (0::int)"
    by simp
  with formatPercentage_two_digits [of 3333 10000] at_scenario show ?thesis
    by simp
qed

text \<open>
  C8. The third argument of \<open>formatPercentage\<close> has no effect: any two precisions give
  the same result. Whatever the precision, a zero denominator gives \<open>0%\<close>, and a
  non-negative numerator over a positive denominator is scaled by \<open>10 ^ (2 + 2)\<close>,
  divided, and split into the whole percentage and a fraction that is written, when it
  is not zero, with exactly two digits.
\<close>

theorem formatPercentage_ignores_precision:
  "formatPercentage n d p = formatPercentage n d q
   \<and> formatPercentage n 0 p = Inr ''0%''
   \<and> (0 \<le> n \<and> 0 < d \<longrightarrow>
        (let scaled = n * 10 ^ (2 + 2) div d;
             whole = scaled div 10 ^ 2;
             fraction = scaled mod 10 ^ 2;
             fractionDigits = padStart 2 (CHR ''0'') (bigint_toString fraction)
         in formatPercentage n d p =
              Inr (if fraction = 0 then bigint_toString whole @ ''%''
                   else bigint_toString whole @ ''.'' @ fractionDigits @ ''%'')
            \<and> length fractionDigits = 2 \<and> list_all is_digit fractionDigits))"
proof (intro conjI impI)
  show "formatPercentage n d p = formatPercentage n d q"
    by (simp add: formatPercentage_def)
  show "formatPercentage n 0 p = Inr ''0%''"
    by (simp add: formatPercentage_def)
next
  assume "0 \<le> n \<and> 0 < d"
  then have n: "0 \<le> n" and d: "0 < d" by simp_all
  have f: "0 \<le> (n * 10000 div d) mod 100" "(n * 10000 div d) mod 100 < 100"
    by simp_all
  show "let scaled = n * 10 ^ (2 + 2) div d;
            whole = scaled div 10 ^ 2;
            fraction = scaled mod 10 ^ 2;
            fractionDigits = padStart 2 (CHR ''0'') (bigint_toString fraction)
        in formatPercentage n d p =
             Inr (if fraction = 0 then bigint_toString whole @ ''%''
                  else bigint_toString whole @ ''.'' @ fractionDigits @ ''%'')
           \<and> length fractionDigits = 2 \<and> list_all is_digit fractionDigits"
    using formatPercentage_nonneg [OF n d, of p] two_fraction_digits [OF f]
    by (simp add: Let_def)
qed

theorem formatPercentage_ignores_precision_witness:
  "(0::int) \<le> 1 \<and> (0::int) < 3
   \<and> formatPercentage 1 3 0 = formatPercentage 1 3 7
   \<and> formatPercentage 1 3 0 = Inr ''33.33%''"
proof -
  have str: "bigint_toString 33 = ''33''"
    by code_simp
  have "formatPercentage 1 3 0 = formatPercentage 1 3 7"
    using formatPercentage_ignores_precision [of 1 3 0 7] by blast
  moreover have "formatPercentage 1 3 0 = Inr ''33.33%''"
    using formatPercentage_ignores_precision [of 1 3 0 0]
    by (simp add: Let_def str padStart_def)
  ultimately show ?thesis by simp
qed

section \<open>Annualised yield\<close>

text \<open>
  C9. \<open>calculateAPY\<close> returns the number 0, without throwing, when the holder's balance
  is 0 and when the eligible supply is 0, whatever the distribution and the price
  (the source has no periods-per-year parameter: the factor 12 is a literal).
\<close>

theorem calculateAPY_zero:
  "calculateAPY ops periodicDistribution 0 eligibleSupply referencePrice
     = Inr (num_literal ops 0)
   \<and> calculateAPY ops periodicDistribution holderBalance 0 referencePrice
     = Inr (num_literal ops 0)"
  by (simp add: calculateAPY_def)

section \<open>Error classification\<close>

lemma parseContractError_string: "parseContractError (JString s) = Inr (JString s)"
  by (simp add: parseContractError_def)

lemma parseContractError_absent:
  "parseContractError JNull = Inr (JString ''Unknown error occurred'')"
  "parseContractError JUndefined = Inr (JString ''Unknown error occurred'')"
  "parseContractError (JObject []) = Inr (JString ''Unknown error occurred'')"
  by (simp_all add: parseContractError_def)

lemma parseContractError_paused:
  "str_includes m ''Pausable: paused'' \<Longrightarrow>
     parseContractError (JObject [(''message'', JString m)])
       = Inr (JString ''Contract is currently paused'')"
  by (simp add: parseContractError_def and_then_def)

lemma parseContractError_paused_example:
  "parseContractError (JObject [(''message'', JString ''Pausable: paused'')])
     = Inr (JString ''Contract is currently paused'')"
  by (rule parseContractError_paused) code_simp

text \<open>
  C4. The classifier is to return a string, without throwing, for every input, objects
  whose message is not a string included. On the object \<^verbatim>\<open>{ message: 42 }\<close> the call
  \<^verbatim>\<open>message.includes(...)\<close> throws a \<^verbatim>\<open>TypeError\<close>.
\<close>

theorem parseContractError_throws:
  "parseContractError (JObject [(''message'', JNumber 42)]) = Inl TypeError"
  by (simp add: parseContractError_def and_then_def)

text \<open>A message that is an array is searched as an array and returned as it is.\<close>

lemma parseContractError_array:
  "parseContractError (JObject [(''message'', JArray [])]) = Inr (JArray [])"
  by (simp add: parseContractError_def and_then_def)

section \<open>Facts about the client's combinators\<close>

lemma propagates_return: "propagates_as Q (return_io v)"
  by (simp add: propagates_as_def return_io_def)

lemma propagates_throw: "propagates_as Q (throw e)"
  by (simp add: propagates_as_def throw_def)

lemma propagates_date: "propagates_as Q (read_date_now T)"
  by (simp add: propagates_as_def read_date_now_def)

lemma propagates_warn: "propagates_as Q (console_warn l e)"
  by (simp add: propagates_as_def console_warn_def)

lemma propagates_await: "propagates_as is_rejection_or_wrapped (await_call f)"
  by (auto simp: propagates_as_def await_call_def split: sum.splits)

lemma throws_only_await: "throws_only is_rejection_or_wrapped (await_call f)"
  by (auto simp: throws_only_def await_call_def split: sum.splits)

lemma propagates_weaken:
  "propagates_as Q m \<Longrightarrow> (\<And>e. Q e \<Longrightarrow> Q' e) \<Longrightarrow> propagates_as Q' m"
  by (fastforce simp: propagates_as_def)

lemma throws_only_weaken:
  "throws_only Q m \<Longrightarrow> (\<And>e. Q e \<Longrightarrow> Q' e) \<Longrightarrow> throws_only Q' m"
  by (fastforce simp: throws_only_def)

lemma wrapped_is_rejection_or_wrapped:
  "is_ContractInteractionError e \<Longrightarrow> is_rejection_or_wrapped e"
  by (cases e) simp_all

lemma propagates_bind:
  assumes "propagates_as Q m" and "\<And>x. propagates_as Q (k x)"
  shows "propagates_as Q (bind_io m k)"
  unfolding propagates_as_def
proof (intro allI impI)
  fix w
  assume changed: "failed_calls (snd (bind_io m k w)) \<noteq> failed_calls w"
  obtain r w1 where mw: "m w = (r, w1)" by (cases "m w")
  show "\<exists>e. fst (bind_io m k w) = Inl e \<and> Q e"
  proof (cases r)
    case (Inl e)
    with mw changed assms(1) show ?thesis
      by (auto simp: bind_io_def propagates_as_def dest!: spec [of _ w])
  next
    case (Inr x)
    have same: "failed_calls w1 = failed_calls w"
      using assms(1) mw Inr by (auto simp: propagates_as_def dest!: spec [of _ w])
    with changed mw Inr have "failed_calls (snd (k x w1)) \<noteq> failed_calls w1"
      by (simp add: bind_io_def)
    with assms(2) [of x] have "\<exists>e. fst (k x w1) = Inl e \<and> Q e"
      by (simp add: propagates_as_def)
    with mw Inr show ?thesis by (simp add: bind_io_def)
  qed
qed

lemma propagates_catch:
  assumes "propagates_as Q m"
    and "\<And>e w. \<exists>e'. handler e w = (Inl e', w) \<and> (Q e \<longrightarrow> Q' e')"
  shows "propagates_as Q' (try_catch m handler)"
  unfolding propagates_as_def
proof (intro allI impI)
  fix w
  assume changed: "failed_calls (snd (try_catch m handler w)) \<noteq> failed_calls w"
  obtain r w1 where mw: "m w = (r, w1)" by (cases "m w")
  show "\<exists>e. fst (try_catch m handler w) = Inl e \<and> Q' e"
  proof (cases r)
    case (Inl e)
    obtain e' where h: "handler e w1 = (Inl e', w1)" and q: "Q e \<longrightarrow> Q' e'"
      using assms(2) [of e w1] by blast
    from mw Inl h changed have "failed_calls w1 \<noteq> failed_calls w"
      by (simp add: try_catch_def)
    with assms(1) mw Inl have "Q e"
      by (auto simp: propagates_as_def dest!: spec [of _ w])
    with q mw Inl h show ?thesis by (simp add: try_catch_def)
  next
    case (Inr x)
    with assms(1) mw changed show ?thesis
      by (auto simp: try_catch_def propagates_as_def dest!: spec [of _ w])
  qed
qed

lemma throws_only_catch:
  assumes "\<And>e w. \<exists>e' w'. handler e w = (Inl e', w') \<and> Q' e'"
  shows "throws_only Q' (try_catch m handler)"
  unfolding throws_only_def
proof (intro allI impI)
  fix w e
  assume thrown: "fst (try_catch m handler w) = Inl e"
  obtain r w1 where mw: "m w = (r, w1)" by (cases "m w")
  show "Q' e"
  proof (cases r)
    case (Inl e0)
    obtain e' w' where "handler e0 w1 = (Inl e', w')" and "Q' e'"
      using assms [of e0 w1] by blast
    with mw Inl thrown show ?thesis by (simp add: try_catch_def)
  next
    case (Inr x)
    with mw thrown show ?thesis by (simp add: try_catch_def)
  qed
qed

lemma propagates_all2:
  assumes "propagates_as Q p" "propagates_as Q q" "throws_only Q p"
  shows "propagates_as Q (promise_all2 p q)"
  unfolding propagates_as_def
proof (intro allI impI)
  fix w
  assume changed: "failed_calls (snd (promise_all2 p q w)) \<noteq> failed_calls w"
  obtain r1 w1 where pw: "p w = (r1, w1)" by (cases "p w")
  obtain r2 w2 where qw: "q w1 = (r2, w2)" by (cases "q w1")
  from changed pw qw have ch: "failed_calls w2 \<noteq> failed_calls w"
    by (simp add: promise_all2_def)
  show "\<exists>e. fst (promise_all2 p q w) = Inl e \<and> Q e"
  proof (cases r1)
    case (Inl e)
    with assms(3) pw have "Q e" by (auto simp: throws_only_def dest!: spec [of _ w])
    with pw qw Inl show ?thesis by (simp add: promise_all2_def)
  next
    case (Inr a)
    with assms(1) pw have "failed_calls w1 = failed_calls w"
      by (auto simp: propagates_as_def dest!: spec [of _ w])
    with ch have "failed_calls (snd (q w1)) \<noteq> failed_calls w1" by (simp add: qw)
    with assms(2) qw obtain e where "r2 = Inl e" "Q e"
      by (auto simp: propagates_as_def dest!: spec [of _ w1])
    with pw qw Inr show ?thesis by (simp add: promise_all2_def)
  qed
qed

lemma throws_only_all2:
  assumes "throws_only Q p" "throws_only Q q"
  shows "throws_only Q (promise_all2 p q)"
  unfolding throws_only_def
proof (intro allI impI)
  fix w e
  assume thrown: "fst (promise_all2 p q w) = Inl e"
  obtain r1 w1 where pw: "p w = (r1, w1)" by (cases "p w")
  obtain r2 w2 where qw: "q w1 = (r2, w2)" by (cases "q w1")
  from assms(1) pw have 1: "r1 = Inl e \<Longrightarrow> Q e"
    by (auto simp: throws_only_def dest!: spec [of _ w])
  from assms(2) qw have 2: "r2 = Inl e \<Longrightarrow> Q e"
    by (auto simp: throws_only_def dest!: spec [of _ w1])
  from thrown pw qw 1 2 show "Q e"
    by (auto simp: promise_all2_def split: sum.splits)
qed

text \<open>The handlers of the client rethrow: they make no call and reject in the same world.\<close>

lemma wrap_handler:
  "is_ContractInteractionError x \<Longrightarrow>
     \<exists>e'. (\<lambda>error. throw x) e w = (Inl e', w) \<and> (Q e \<longrightarrow> is_ContractInteractionError e')"
  by (simp add: throw_def)

lemma wrap_handler_only:
  "is_ContractInteractionError x \<Longrightarrow>
     \<exists>e' w'. (\<lambda>error. throw x) e w = (Inl e', w') \<and> is_ContractInteractionError e'"
  by (simp add: throw_def)

lemma read_propagates:
  assumes "is_ContractInteractionError x"
    and "\<And>v. propagates_as is_rejection_or_wrapped (k' v)"
  shows "propagates_as is_ContractInteractionError
           (try_catch (bind_io (await_call f) k') (\<lambda>error. throw x))"
  by (rule propagates_catch [where Q = is_rejection_or_wrapped])
     (auto intro!: propagates_bind propagates_await assms(2) simp: throw_def assms(1))

section \<open>Facts about the client's operations\<close>

lemmas propagates_intros =
  propagates_bind propagates_await propagates_return propagates_throw propagates_date
  propagates_warn propagates_all2 throws_only_await throws_only_all2

lemma getTokenBalance_wrapped:
  "propagates_as is_ContractInteractionError (getTokenBalance T a)"
  "throws_only is_ContractInteractionError (getTokenBalance T a)"
  unfolding getTokenBalance_def
  by (auto intro!: read_propagates throws_only_catch propagates_return simp: throw_def)

lemma getTokenBalanceAtSnapshot_wrapped:
  "propagates_as is_ContractInteractionError (getTokenBalanceAtSnapshot T a i)"
  "throws_only is_ContractInteractionError (getTokenBalanceAtSnapshot T a i)"
  unfolding getTokenBalanceAtSnapshot_def
  by (auto intro!: read_propagates throws_only_catch propagates_return simp: throw_def)

lemma getTotalSupplyAtSnapshot_wrapped:
  "propagates_as is_ContractInteractionError (getTotalSupplyAtSnapshot T i)"
  "throws_only is_ContractInteractionError (getTotalSupplyAtSnapshot T i)"
  unfolding getTotalSupplyAtSnapshot_def
  by (auto intro!: read_propagates throws_only_catch propagates_return simp: throw_def)

lemma getEligibleSupplyAtSnapshot_wrapped:
  "propagates_as is_ContractInteractionError (getEligibleSupplyAtSnapshot T i)"
  "throws_only is_ContractInteractionError (getEligibleSupplyAtSnapshot T i)"
  unfolding getEligibleSupplyAtSnapshot_def
  by (auto intro!: read_propagates throws_only_catch propagates_return simp: throw_def)

lemma getClaimableAmount_wrapped:
  "propagates_as is_ContractInteractionError (getClaimableAmount T a i)"
  "throws_only is_ContractInteractionError (getClaimableAmount T a i)"
  unfolding getClaimableAmount_def
  by (auto intro!: read_propagates throws_only_catch propagates_return simp: throw_def)

lemma getDistributionInfo_wrapped:
  "propagates_as is_ContractInteractionError (getDistributionInfo T i)"
  "throws_only is_ContractInteractionError (getDistributionInfo T i)"
  unfolding getDistributionInfo_def
  by (auto intro!: read_propagates throws_only_catch propagates_return
      simp: throw_def split: prod.splits)

lemmas reads_propagate =
  getTokenBalance_wrapped(1) getTokenBalanceAtSnapshot_wrapped(1)
  getTotalSupplyAtSnapshot_wrapped(1) getEligibleSupplyAtSnapshot_wrapped(1)
  getClaimableAmount_wrapped(1) getDistributionInfo_wrapped(1)

lemmas reads_throw =
  getTokenBalance_wrapped(2) getTokenBalanceAtSnapshot_wrapped(2)
  getTotalSupplyAtSnapshot_wrapped(2) getEligibleSupplyAtSnapshot_wrapped(2)
  getClaimableAmount_wrapped(2) getDistributionInfo_wrapped(2)

lemmas reads_weak =
  reads_propagate [THEN propagates_weaken, OF wrapped_is_rejection_or_wrapped]
  reads_throw [THEN throws_only_weaken, OF wrapped_is_rejection_or_wrapped]


lemma getUserInfo_propagates:
  "propagates_as is_ContractInteractionError (getUserInfo T a i)"
  unfolding getUserInfo_def
  apply (rule propagates_catch [where Q = is_rejection_or_wrapped])
  subgoal by (auto intro!: propagates_intros reads_weak split: prod.splits)
  subgoal by (simp add: throw_def)
  done

lemma createSnapshot_propagates:
  "propagates_as is_ContractInteractionError (createSnapshot cfg T)"
proof (cases "walletClient cfg")
  case False
  then show ?thesis by (simp add: createSnapshot_def propagates_throw)
next
  case True
  then show ?thesis
    unfolding createSnapshot_def
    apply simp
    apply (rule propagates_catch [where Q = is_rejection_or_wrapped])
    subgoal by (auto intro!: propagates_intros reads_weak split: prod.splits)
    subgoal by (simp add: throw_def)
    done
qed

lemma claim_propagates:
  "propagates_as is_ContractInteractionError (claim cfg T i)"
proof (cases "walletClient cfg")
  case False
  then show ?thesis by (simp add: claim_def propagates_throw)
next
  case True
  then show ?thesis
    unfolding claim_def
    apply simp
    apply (rule propagates_catch [where Q = is_rejection_or_wrapped])
    subgoal by (auto intro!: propagates_intros reads_weak simp: Let_def split: prod.splits)
    subgoal for e w by (cases e) (simp_all add: throw_def)
    done
qed

lemma depositRevenue_propagates:
  "propagates_as is_ContractInteractionError (depositRevenue cfg T amount)"
proof (cases "walletClient cfg")
  case False
  then show ?thesis by (simp add: depositRevenue_def propagates_throw)
next
  case True
  then show ?thesis
    unfolding depositRevenue_def
    apply simp
    apply (rule propagates_catch [where Q = is_rejection_or_wrapped])
    subgoal by (auto intro!: propagates_intros simp: Let_def)
    subgoal for e w by (cases e) (simp_all add: throw_def)
    done
qed

lemma fundDistribution_propagates:
  "propagates_as is_ContractInteractionError (fundDistribution cfg T amount)"
proof (cases "walletClient cfg")
  case False
  then show ?thesis by (simp add: fundDistribution_def propagates_throw)
next
  case True
  then show ?thesis
    unfolding fundDistribution_def
    apply simp
    apply (rule propagates_catch [where Q = is_rejection_or_wrapped])
    subgoal by (auto intro!: propagates_intros)
    subgoal by (simp add: throw_def)
    done
qed

lemma createDistribution_propagates:
  "propagates_as is_ContractInteractionError (createDistribution cfg T i amount)"
proof (cases "walletClient cfg")
  case False
  then show ?thesis by (simp add: createDistribution_def propagates_throw)
next
  case True
  then show ?thesis
    unfolding createDistribution_def
    apply simp
    apply (rule propagates_catch [where Q = is_rejection_or_wrapped])
    subgoal by (auto intro!: propagates_intros)
    subgoal by (simp add: throw_def)
    done
qed

lemma propagated_iff:
  "propagates_as is_ContractInteractionError m \<Longrightarrow> propagated (m w) w"
  by (auto simp: propagates_as_def propagated_def dest!: spec [of _ w])

lemma claimMultiple_account_rejected:
  assumes "walletClient cfg" "getAddresses T (clock w) = Inl msg"
  shows "fst (claimMultiple cfg T ids w)
           = Inl (ContractInteractionError ''Failed to claim multiple profits''
                    ''Distributor'' ''claimMultiple'')"
  using assms
  by (simp add: claimMultiple_def try_catch_def bind_io_def await_call_def throw_def)

lemma hasRole_rejected:
  "token_hasRole T role a (clock w) = Inl msg \<Longrightarrow> fst (hasRole T role a w) = Inr False"
  by (simp add: hasRole_def try_catch_def bind_io_def await_call_def return_io_def)

text \<open>The batch loop against the claims taken in turn.\<close>

lemma blind_return: "console_blind (return_io v)"
  by (simp add: console_blind_def return_io_def)

lemma blind_throw: "console_blind (throw e)"
  by (simp add: console_blind_def throw_def)

lemma blind_date: "console_blind (read_date_now T)"
  by (simp add: console_blind_def read_date_now_def)

lemma blind_await: "console_blind (await_call f)"
  by (simp add: console_blind_def await_call_def split: sum.splits)

lemma blind_bind:
  assumes "console_blind m" "\<And>x. console_blind (k x)"
  shows "console_blind (bind_io m k)"
  unfolding console_blind_def
proof (intro allI)
  fix w c
  obtain r w1 where mw: "m w = (r, w1)" by (cases "m w")
  with assms(1) have mc: "m (w\<lparr>console := c\<rparr>) = (r, w1\<lparr>console := c\<rparr>)"
    by (simp add: console_blind_def)
  show "bind_io m k (w\<lparr>console := c\<rparr>)
          = (fst (bind_io m k w), (snd (bind_io m k w))\<lparr>console := c\<rparr>)"
  proof (cases r)
    case (Inl e)
    with mw mc show ?thesis by (simp add: bind_io_def)
  next
    case (Inr x)
    with mw mc assms(2) [of x] show ?thesis
      by (simp add: bind_io_def console_blind_def)
  qed
qed

lemma blind_catch:
  assumes "console_blind m" "\<And>e. console_blind (handler e)"
  shows "console_blind (try_catch m handler)"
  unfolding console_blind_def
proof (intro allI)
  fix w c
  obtain r w1 where mw: "m w = (r, w1)" by (cases "m w")
  with assms(1) have mc: "m (w\<lparr>console := c\<rparr>) = (r, w1\<lparr>console := c\<rparr>)"
    by (simp add: console_blind_def)
  show "try_catch m handler (w\<lparr>console := c\<rparr>)
          = (fst (try_catch m handler w), (snd (try_catch m handler w))\<lparr>console := c\<rparr>)"
  proof (cases r)
    case (Inl e)
    with mw mc assms(2) [of e] show ?thesis
      by (simp add: try_catch_def console_blind_def)
  next
    case (Inr x)
    with mw mc show ?thesis by (simp add: try_catch_def)
  qed
qed

lemma blind_all2:
  assumes "console_blind p" "console_blind q"
  shows "console_blind (promise_all2 p q)"
  unfolding console_blind_def
proof (intro allI)
  fix w c
  obtain r1 w1 where pw: "p w = (r1, w1)" by (cases "p w")
  obtain r2 w2 where qw: "q w1 = (r2, w2)" by (cases "q w1")
  from assms(1) pw have pc: "p (w\<lparr>console := c\<rparr>) = (r1, w1\<lparr>console := c\<rparr>)"
    by (simp add: console_blind_def)
  from assms(2) qw have qc: "q (w1\<lparr>console := c\<rparr>) = (r2, w2\<lparr>console := c\<rparr>)"
    by (simp add: console_blind_def)
  show "promise_all2 p q (w\<lparr>console := c\<rparr>)
          = (fst (promise_all2 p q w), (snd (promise_all2 p q w))\<lparr>console := c\<rparr>)"
    by (simp add: promise_all2_def pw qw pc qc)
qed

lemmas blind_intros =
  blind_bind blind_catch blind_all2 blind_return blind_throw blind_date blind_await

lemma claim_console_blind: "console_blind (claim cfg T i)"
  unfolding claim_def getClaimableAmount_def getDistributionInfo_def
  by (auto intro!: blind_intros simp: Let_def split: prod.splits thrown.splits)

lemma claim_with_console:
  "claim cfg T i w = (r, w1) \<Longrightarrow> claim cfg T i (w\<lparr>console := c\<rparr>) = (r, w1\<lparr>console := c\<rparr>)"
  using claim_console_blind [of cfg T i] by (simp add: console_blind_def)

lemma claim_same_console: "claim cfg T i w = (r, w1) \<Longrightarrow> console w1 = console w"
  using claim_with_console [of cfg T i w r w1 "console w"] by (cases w1) auto

lemma claims_in_turn_with_console:
  "claims_in_turn cfg T ids w = (out, w') \<Longrightarrow>
     claims_in_turn cfg T ids (w\<lparr>console := c\<rparr>) = (out, w'\<lparr>console := c\<rparr>)"
proof (induction ids arbitrary: w out w')
  case Nil
  then show ?case by auto
next
  case (Cons i ids)
  obtain r w1 where cw: "claim cfg T i w = (r, w1)" by (cases "claim cfg T i w")
  obtain out1 w2 where tw: "claims_in_turn cfg T ids w1 = (out1, w2)"
    by (cases "claims_in_turn cfg T ids w1")
  from Cons.prems cw tw have eq: "out = (i, r) # out1" "w' = w2" by auto
  from Cons.IH [OF tw] claim_with_console [OF cw] eq show ?case by simp
qed

lemma claim_each_exact:
  "claims_in_turn cfg T ids w = (out, w') \<Longrightarrow>
     claim_each cfg T ids acc w
       = (Inr (acc @ succeeded_claims out),
          w'\<lparr>console := console w @ failure_warnings out\<rparr>)"
proof (induction ids arbitrary: acc w out w')
  case Nil
  then show ?case by (auto simp: return_io_def)
next
  case (Cons i ids)
  obtain r w1 where cw: "claim cfg T i w = (r, w1)" by (cases "claim cfg T i w")
  obtain out1 w2 where tw: "claims_in_turn cfg T ids w1 = (out1, w2)"
    by (cases "claims_in_turn cfg T ids w1")
  from Cons.prems cw tw have eq: "out = (i, r) # out1" "w' = w2" by auto
  have con: "console w1 = console w" using cw by (rule claim_same_console)
  show ?case
  proof (cases r)
    case (Inr res)
    have step: "claim_each cfg T (i # ids) acc w = claim_each cfg T ids (acc @ [res]) w1"
      by (simp add: bind_io_def try_catch_def return_io_def cw Inr)
    show ?thesis
      unfolding step using Cons.IH [OF tw, of "acc @ [res]"] by (simp add: eq Inr con)
  next
    case (Inl e)
    let ?w2 = "w1\<lparr>console := console w1 @ [(warning_line i, e)]\<rparr>"
    have step: "claim_each cfg T (i # ids) acc w = claim_each cfg T ids acc ?w2"
      by (simp add: bind_io_def try_catch_def return_io_def console_warn_def
          warning_line_def cw Inl)
    have "claims_in_turn cfg T ids ?w2
            = (out1, w2\<lparr>console := console w1 @ [(warning_line i, e)]\<rparr>)"
      using tw by (rule claims_in_turn_with_console)
    from Cons.IH [OF this, of acc] show ?thesis
      unfolding step by (simp add: eq Inl con)
  qed
qed

lemma claimMultiple_exact:
  assumes "walletClient cfg" "getAddresses T (clock w) = Inr addrs"
  shows "claimMultiple cfg T ids w
           = (Inr (succeeded_claims (fst (claims_in_turn cfg T ids (w\<lparr>clock := Suc (clock w)\<rparr>)))),
              (snd (claims_in_turn cfg T ids (w\<lparr>clock := Suc (clock w)\<rparr>)))
                \<lparr>console := console w
                   @ failure_warnings (fst (claims_in_turn cfg T ids (w\<lparr>clock := Suc (clock w)\<rparr>)))\<rparr>)"
proof -
  let ?w1 = "w\<lparr>clock := Suc (clock w)\<rparr>"
  obtain out w' where tw: "claims_in_turn cfg T ids ?w1 = (out, w')"
    by (cases "claims_in_turn cfg T ids ?w1")
  from claim_each_exact [OF tw, of "[]"] assms show ?thesis
    by (simp add: claimMultiple_def try_catch_def bind_io_def await_call_def tw)
qed

section \<open>Runs of the client on the two transports\<close>

lemmas run_defs =
  try_catch_def bind_io_def await_call_def return_io_def throw_def read_date_now_def
  console_warn_def promise_all2_def first_account_def wallet_required_def
  initial_world_def

lemma rejecting_runs:
  "getTokenBalance rejecting_transport ''0xf39F'' initial_world
     = (Inl (ContractInteractionError ''Failed to get token balance'' ''ENR1MToken'' ''balanceOf''),
        \<lparr>clock = 1, failed_calls = [0], console = []\<rparr>)"
  "claim wallet_config rejecting_transport 1 initial_world
     = (Inl (ContractInteractionError ''Failed to claim profits'' ''Distributor'' ''claim''),
        \<lparr>clock = 1, failed_calls = [0], console = []\<rparr>)"
  "depositRevenue wallet_config rejecting_transport 600 initial_world
     = (Inl (ContractInteractionError ''Failed to deposit revenue'' ''RevenueVault'' ''deposit''),
        \<lparr>clock = 1, failed_calls = [0], console = []\<rparr>)"
  "getUserInfo rejecting_transport ''0xf39F'' 1 initial_world
     = (Inl (ContractInteractionError ''Failed to get user info'' ''Multiple contracts'' ''getUserInfo''),
        \<lparr>clock = 4, failed_calls = [0, 1, 2, 3], console = []\<rparr>)"
  by (simp_all add: getTokenBalance_def claim_def depositRevenue_def getUserInfo_def
      getTokenBalanceAtSnapshot_def getClaimableAmount_def run_defs
      rejecting_transport_def wallet_config_def)

lemma claim_reverting_1:
  "claim wallet_config reverting_transport 1 w
     = (Inr \<lparr>cr_snapshotId = 1, cr_amount = 100, cr_user = Some ''0xf39F'',
              cr_timestamp = 1700000000, cr_transactionHash = ''0x456hash''\<rparr>,
        w\<lparr>clock := clock w + 6\<rparr>)"
  by (simp add: claim_def getClaimableAmount_def getDistributionInfo_def run_defs
      reverting_transport_def wallet_config_def)

lemma claim_reverting_2:
  "claim wallet_config reverting_transport 2 w
     = (Inl (ContractInteractionError ''Failed to claim profits'' ''Distributor'' ''claim''),
        w\<lparr>clock := clock w + 5, failed_calls := failed_calls w @ [clock w + 4]\<rparr>)"
  by (simp add: claim_def getClaimableAmount_def getDistributionInfo_def run_defs
      reverting_transport_def wallet_config_def)

lemma claimMultiple_run:
  "claimMultiple wallet_config reverting_transport [1, 2] initial_world
     = (Inr [\<lparr>cr_snapshotId = 1, cr_amount = 100, cr_user = Some ''0xf39F'',
               cr_timestamp = 1700000000, cr_transactionHash = ''0x456hash''\<rparr>],
        \<lparr>clock = 12, failed_calls = [11],
         console = [(''Failed to claim snapshot 2:'',
                     ContractInteractionError ''Failed to claim profits'' ''Distributor'' ''claim'')]\<rparr>)"
proof -
  have line: "bigint_toString 2 = ''2''"
    by code_simp
  have wallet: "walletClient wallet_config"
    by (simp add: wallet_config_def)
  have addrs: "getAddresses reverting_transport n = Inr [''0xf39F'']" for n
    by (simp add: reverting_transport_def)
  show ?thesis
    by (simp add: claimMultiple_def wallet addrs claim_reverting_1 claim_reverting_2 line
        try_catch_def bind_io_def await_call_def return_io_def console_warn_def
        initial_world_def)
qed

lemma claims_in_turn_run:
  "claims_in_turn wallet_config reverting_transport [1, 2]
     (initial_world\<lparr>clock := Suc (clock initial_world)\<rparr>)
     = ([(1, Inr \<lparr>cr_snapshotId = 1, cr_amount = 100, cr_user = Some ''0xf39F'',
                    cr_timestamp = 1700000000, cr_transactionHash = ''0x456hash''\<rparr>),
         (2, Inl (ContractInteractionError ''Failed to claim profits'' ''Distributor''
                    ''claim''))],
        \<lparr>clock = 12, failed_calls = [11], console = []\<rparr>)"
  by (simp add: claim_reverting_1 claim_reverting_2 initial_world_def)

section \<open>Remote failures\<close>

text \<open>
  C5, as the specification states it: only \<open>claimMultiple\<close> may swallow a remote failure,
  and every other operation propagates it as a typed error. \<open>hasRole\<close> is another
  operation; on a transport that rejects its read it resolves with false, and no error
  reaches the caller.
\<close>

theorem hasRole_swallows_rejection:
  "fst (hasRole rejecting_transport ''ADMIN_ROLE'' ''0xf39F'' initial_world) = Inr False
   \<and> failed_calls (snd (hasRole rejecting_transport ''ADMIN_ROLE'' ''0xf39F'' initial_world)) = [0]
   \<and> \<not> propagated (hasRole rejecting_transport ''ADMIN_ROLE'' ''0xf39F'' initial_world)
          initial_world"
  by (simp add: hasRole_def run_defs rejecting_transport_def propagated_def)

text \<open>
  C5, amended. The reads, \<open>createSnapshot\<close>, \<open>getUserInfo\<close>, \<open>claim\<close>,
  \<open>depositRevenue\<close>, \<open>fundDistribution\<close> and \<open>createDistribution\<close> propagate: when
  one of their remote calls is rejected they reject with a \<open>ContractInteractionError\<close>.
  So does \<open>claimMultiple\<close> when its account lookup is rejected. Once the lookup has
  resolved, \<open>claimMultiple\<close> resolves, whatever the claims do: with the snapshots
  claimed in turn, each claim in the world the previous one left, the caller receives
  exactly the results of the claims that resolved, in order, and the console exactly one
  warning line, with its error, for each claim that rejected; nothing else of the world
  differs from that of the claims taken in turn. \<open>hasRole\<close> resolves with false when
  its read is rejected.
\<close>

theorem remote_failures_propagate:
  "propagated (getTokenBalance T a w) w
   \<and> propagated (getTokenBalanceAtSnapshot T a i w) w
   \<and> propagated (getTotalSupplyAtSnapshot T i w) w
   \<and> propagated (getEligibleSupplyAtSnapshot T i w) w
   \<and> propagated (createSnapshot cfg T w) w
   \<and> propagated (getClaimableAmount T account i w) w
   \<and> propagated (getDistributionInfo T i w) w
   \<and> propagated (getUserInfo T a i w) w
   \<and> propagated (claim cfg T i w) w
   \<and> propagated (depositRevenue cfg T amount w) w
   \<and> propagated (fundDistribution cfg T amount w) w
   \<and> propagated (createDistribution cfg T i amount w) w
   \<and> (walletClient cfg \<and> getAddresses T (clock w) = Inl msg \<longrightarrow>
        fst (claimMultiple cfg T ids w)
          = Inl (ContractInteractionError ''Failed to claim multiple profits''
                   ''Distributor'' ''claimMultiple''))
   \<and> (walletClient cfg \<and> getAddresses T (clock w) = Inr addrs \<longrightarrow>
        claimMultiple cfg T ids w
          = (Inr (succeeded_claims
                    (fst (claims_in_turn cfg T ids (w\<lparr>clock := Suc (clock w)\<rparr>)))),
             (snd (claims_in_turn cfg T ids (w\<lparr>clock := Suc (clock w)\<rparr>)))
               \<lparr>console := console w
                  @ failure_warnings
                      (fst (claims_in_turn cfg T ids (w\<lparr>clock := Suc (clock w)\<rparr>)))\<rparr>))
   \<and> (token_hasRole T role a (clock w) = Inl msg' \<longrightarrow>
        fst (hasRole T role a w) = Inr False)"
  using claimMultiple_exact [of cfg T w addrs ids]
  by (simp add: propagated_iff reads_propagate getUserInfo_propagates createSnapshot_propagates
      claim_propagates depositRevenue_propagates fundDistribution_propagates
      createDistribution_propagates claimMultiple_account_rejected hasRole_rejected)

theorem remote_failures_propagate_witness:
  "failed_calls (snd (getTokenBalance rejecting_transport ''0xf39F'' initial_world))
     \<noteq> failed_calls initial_world
   \<and> propagated (getTokenBalance rejecting_transport ''0xf39F'' initial_world) initial_world
   \<and> failed_calls (snd (claim wallet_config rejecting_transport 1 initial_world))
     \<noteq> failed_calls initial_world
   \<and> propagated (claim wallet_config rejecting_transport 1 initial_world) initial_world
   \<and> walletClient wallet_config
   \<and> getAddresses rejecting_transport (clock initial_world) = Inl ''connection refused''
   \<and> fst (claimMultiple wallet_config rejecting_transport [1, 2] initial_world)
        = Inl (ContractInteractionError ''Failed to claim multiple profits''
                 ''Distributor'' ''claimMultiple'')
   \<and> token_hasRole rejecting_transport ''ADMIN_ROLE'' ''0xf39F'' (clock initial_world)
        = Inl ''connection refused''
   \<and> fst (hasRole rejecting_transport ''ADMIN_ROLE'' ''0xf39F'' initial_world) = Inr False
   \<and> getAddresses reverting_transport (clock initial_world) = Inr [''0xf39F'']
   \<and> claimMultiple wallet_config reverting_transport [1, 2] initial_world
       = (Inr [\<lparr>cr_snapshotId = 1, cr_amount = 100, cr_user = Some ''0xf39F'',
                 cr_timestamp = 1700000000, cr_transactionHash = ''0x456hash''\<rparr>],
          \<lparr>clock = 12, failed_calls = [11],
           console = [(warning_line 2,
                       ContractInteractionError ''Failed to claim profits'' ''Distributor''
                         ''claim'')]\<rparr>)"
proof -
  have wallet: "walletClient wallet_config"
    by (simp add: wallet_config_def)
  have rejects:
    "getAddresses rejecting_transport (clock initial_world) = Inl ''connection refused''"
    "token_hasRole rejecting_transport ''ADMIN_ROLE'' ''0xf39F'' (clock initial_world)
       = Inl ''connection refused''"
    by (simp_all add: rejecting_transport_def)
  have resolves:
    "getAddresses reverting_transport (clock initial_world) = Inr [''0xf39F'']"
    by (simp add: reverting_transport_def)
  have failed:
    "failed_calls (snd (getTokenBalance rejecting_transport ''0xf39F'' initial_world))
       \<noteq> failed_calls initial_world"
    "failed_calls (snd (claim wallet_config rejecting_transport 1 initial_world))
       \<noteq> failed_calls initial_world"
    by (simp_all add: rejecting_runs) (simp_all add: initial_world_def)
  have batch:
    "claimMultiple wallet_config reverting_transport [1, 2] initial_world
       = (Inr [\<lparr>cr_snapshotId = 1, cr_amount = 100, cr_user = Some ''0xf39F'',
                 cr_timestamp = 1700000000, cr_transactionHash = ''0x456hash''\<rparr>],
          \<lparr>clock = 12, failed_calls = [11],
           console = [(warning_line 2,
                       ContractInteractionError ''Failed to claim profits'' ''Distributor''
                         ''claim'')]\<rparr>)"
  proof -
    let ?turn = "claims_in_turn wallet_config reverting_transport [1, 2]
                   (initial_world\<lparr>clock := Suc (clock initial_world)\<rparr>)"
    have "claimMultiple wallet_config reverting_transport [1, 2] initial_world
            = (Inr (succeeded_claims (fst ?turn)),
               (snd ?turn)\<lparr>console := console initial_world @ failure_warnings (fst ?turn)\<rparr>)"
      using remote_failures_propagate [where cfg = wallet_config and T = reverting_transport
          and w = initial_world and addrs = "[''0xf39F'']" and ids = "[1, 2]"]
        wallet resolves
      by blast
    then show ?thesis
      unfolding claims_in_turn_run by (simp add: initial_world_def)
  qed
  have single:
    "propagated (getTokenBalance rejecting_transport ''0xf39F'' initial_world) initial_world
     \<and> propagated (claim wallet_config rejecting_transport 1 initial_world) initial_world
     \<and> fst (claimMultiple wallet_config rejecting_transport [1, 2] initial_world)
          = Inl (ContractInteractionError ''Failed to claim multiple profits''
                   ''Distributor'' ''claimMultiple'')
     \<and> fst (hasRole rejecting_transport ''ADMIN_ROLE'' ''0xf39F'' initial_world) = Inr False"
    using remote_failures_propagate [where cfg = wallet_config and T = rejecting_transport
        and w = initial_world and a = "''0xf39F''" and i = 1 and ids = "[1, 2]"
        and role = "''ADMIN_ROLE''" and msg = "''connection refused''"
        and msg' = "''connection refused''"]
      wallet rejects
    by simp
  from single batch wallet rejects resolves failed show ?thesis
    by (intro conjI) simp_all
qed

end
